theory Spec2Isabelle
  imports
    Complex_Main
    "HOL-Library.Word"
    "HOL-Library.List_Lexorder"
    "HOL-Library.Product_Lexorder"
begin

section \<open>JavaScript strings\<close>

text \<open>
  A JavaScript string is a sequence of UTF-16 code units; \<open>length\<close>, \<open>substring\<close> and
  \<open>trim\<close> count code units, and IndexedDB orders string keys by code unit. A string is
  therefore a list of 16-bit words. \<open>str\<close> writes an ASCII literal of the source.
\<close>

type_synonym jschar = "16 word"
type_synonym jsstring = "jschar list"

definition str :: "string \<Rightarrow> jsstring" where
  "str s = map of_char s"

text \<open>
  \<open>String.prototype.trim\<close> removes WhiteSpace and LineTerminator code points (ECMAScript
  12.2 and 12.3) from both ends: TAB, LF, VT, FF, CR, SP, NBSP, U+1680, U+2000..U+200A,
  U+2028, U+2029, U+202F, U+205F, U+3000 and U+FEFF.
\<close>

definition isWhiteSpace :: "jschar \<Rightarrow> bool" where
  "isWhiteSpace c \<longleftrightarrow>
     c \<in> {0x9, 0xA, 0xB, 0xC, 0xD, 0x20, 0xA0, 0x1680, 0x2028, 0x2029, 0x202F, 0x205F,
          0x3000, 0xFEFF}
     \<or> (0x2000 \<le> c \<and> c \<le> 0x200A)"

definition trim :: "jsstring \<Rightarrow> jsstring" where
  "trim s = rev (dropWhile isWhiteSpace (rev (dropWhile isWhiteSpace s)))"

text \<open>\<open>s.substring(0, n)\<close> for a non-negative \<open>n\<close>.\<close>

definition substring0 :: "jsstring \<Rightarrow> nat \<Rightarrow> jsstring" where
  "substring0 s n = take n s"

text \<open>\<open>Array.prototype.join(sep)\<close> on an array of strings.\<close>

fun join :: "jsstring \<Rightarrow> jsstring list \<Rightarrow> jsstring" where
  "join sep [] = []"
| "join sep [x] = x"
| "join sep (x # y # ys) = x @ sep @ join sep (y # ys)"

text \<open>
  Truthiness of an optional string (\<open>undefined\<close>, \<open>null\<close> and \<open>""\<close> are falsy) and of an
  optional number (\<open>undefined\<close> and \<open>0\<close> are falsy), and the operator \<open>a || b\<close> on them.
\<close>

fun truthyStr :: "jsstring option \<Rightarrow> bool" where
  "truthyStr None = False"
| "truthyStr (Some s) = (s \<noteq> [])"

fun truthyNum :: "int option \<Rightarrow> bool" where
  "truthyNum None = False"
| "truthyNum (Some n) = (n \<noteq> 0)"

fun orStr :: "jsstring option \<Rightarrow> jsstring \<Rightarrow> jsstring" where
  "orStr None d = d"
| "orStr (Some s) d = (if s \<noteq> [] then s else d)"

fun orNum :: "int option \<Rightarrow> int \<Rightarrow> int" where
  "orNum None d = d"
| "orNum (Some n) d = (if n \<noteq> 0 then n else d)"

section \<open>Errors and the platform\<close>

text \<open>
  A thrown value is an error object with a name, a message and an optional cause.
\<close>

datatype js_error = JsError (err_name: jsstring) (err_message: jsstring) (err_cause: "js_error option")

definition Error :: "string \<Rightarrow> js_error" where
  "Error msg = JsError (str ''Error'') (str msg) None"

text \<open>
  \<open>crypto.randomUUID()\<close>: sixteen random bytes, supplied by the platform, with the version
  and variant bits of a version 4 UUID, written as lower-case hexadecimal in the groups
  8-4-4-4-12.
\<close>

definition hexDigit :: "nat \<Rightarrow> jschar" where
  "hexDigit n = (if n < 10 then of_nat (48 + n) else of_nat (87 + n))"

definition hexByte :: "8 word \<Rightarrow> jsstring" where
  "hexByte b = [hexDigit (unat (drop_bit 4 b)), hexDigit (unat (take_bit 4 b))]"

definition uuidBytes :: "(nat \<Rightarrow> 8 word) \<Rightarrow> 8 word list" where
  "uuidBytes rnd =
     (map rnd [0..<16])[6 := 0x40 + take_bit 4 (rnd 6), 8 := 0x80 + take_bit 6 (rnd 8)]"

definition randomUUID :: "(nat \<Rightarrow> 8 word) \<Rightarrow> jsstring" where
  "randomUUID rnd =
     (let h = map hexByte (uuidBytes rnd)
      in concat (take 4 h) @ str ''-'' @ concat (take 2 (drop 4 h)) @ str ''-''
         @ concat (take 2 (drop 6 h)) @ str ''-'' @ concat (take 2 (drop 8 h)) @ str ''-''
         @ concat (drop 10 h))"

section \<open>types.ts\<close>

text \<open>
  \<open>SavedPrompt\<close> and \<open>AnalysisEntry\<close>. Both interfaces have fields \<open>id\<close> and \<open>title\<close>; the
  fields are named apart here. \<open>createdAt\<close> is declared a number, but \<open>handleImport\<close> stores
  the imported object with only its \<open>id\<close> filled in, so a stored template can lack it.
\<close>

record SavedPrompt =
  prompt_id :: jsstring
  prompt_title :: jsstring
  content :: jsstring
  createdAt :: "int option"

record AnalysisEntry =
  entry_id :: jsstring
  entry_title :: jsstring
  originalText :: jsstring
  analysis :: jsstring
  promptId :: jsstring
  promptSnapshot :: jsstring
  timestamp :: int

section \<open>services/db.ts\<close>

text \<open>
  An IndexedDB object store with key path \<open>id\<close> holds at most one record per key. It is
  kept as the list of its records; \<open>put\<close> replaces the record of the same key, and the
  reads sort: \<open>store.getAll()\<close> returns the records in ascending key order, and
  \<open>index.getAll()\<close> in ascending order of the index key, records of equal index key in
  ascending order of their primary key.
\<close>

definition put :: "('r \<Rightarrow> 'k) \<Rightarrow> 'r \<Rightarrow> 'r list \<Rightarrow> 'r list" where
  "put key r rows = filter (\<lambda>x. key x \<noteq> key r) rows @ [r]"

definition delete :: "('r \<Rightarrow> jsstring) \<Rightarrow> jsstring \<Rightarrow> 'r list \<Rightarrow> 'r list" where
  "delete key k rows = filter (\<lambda>x. key x \<noteq> k) rows"

definition getAll :: "('r \<Rightarrow> jsstring) \<Rightarrow> 'r list \<Rightarrow> 'r list" where
  "getAll key rows = sort_key key rows"

definition indexGetAll :: "('r \<Rightarrow> int) \<Rightarrow> ('r \<Rightarrow> jsstring) \<Rightarrow> 'r list \<Rightarrow> 'r list" where
  "indexGetAll ix key rows = sort_key (\<lambda>r. (ix r, key r)) rows"

record Database =
  store_prompts :: "SavedPrompt list"
  store_entries :: "AnalysisEntry list"

text \<open>
  \<open>DBService\<close>: the field \<open>db\<close> is \<open>null\<close> until \<open>init\<close> has opened the database. Every
  request ends in its \<open>onsuccess\<close> or its \<open>onerror\<close> handler; which one is the platform's
  choice and a parameter of each method.
\<close>

record DBService =
  db :: "Database option"

datatype idb_event = OnSuccess | OnError js_error

definition getStore :: "DBService \<Rightarrow> js_error + Database" where
  "getStore s = (case db s of None \<Rightarrow> Inl (Error ''DB not initialized'') | Some d \<Rightarrow> Inr d)"

definition getAllPrompts :: "idb_event \<Rightarrow> DBService \<Rightarrow> js_error + SavedPrompt list" where
  "getAllPrompts ev s =
     (case getStore s of
        Inl e \<Rightarrow> Inl e
      | Inr d \<Rightarrow> (case ev of
                   OnError e \<Rightarrow> Inl e
                 | OnSuccess \<Rightarrow> Inr (getAll prompt_id (store_prompts d))))"

definition savePrompt :: "idb_event \<Rightarrow> SavedPrompt \<Rightarrow> DBService \<Rightarrow> js_error + DBService" where
  "savePrompt ev prompt s =
     (case getStore s of
        Inl e \<Rightarrow> Inl e
      | Inr d \<Rightarrow> (case ev of
                   OnError e \<Rightarrow> Inl e
                 | OnSuccess \<Rightarrow>
                     Inr (s\<lparr>db := Some (d\<lparr>store_prompts := put prompt_id prompt (store_prompts d)\<rparr>)\<rparr>)))"

definition deletePrompt :: "idb_event \<Rightarrow> jsstring \<Rightarrow> DBService \<Rightarrow> js_error + DBService" where
  "deletePrompt ev k s =
     (case getStore s of
        Inl e \<Rightarrow> Inl e
      | Inr d \<Rightarrow> (case ev of
                   OnError e \<Rightarrow> Inl e
                 | OnSuccess \<Rightarrow>
                     Inr (s\<lparr>db := Some (d\<lparr>store_prompts := delete prompt_id k (store_prompts d)\<rparr>)\<rparr>)))"

definition getAllEntries :: "idb_event \<Rightarrow> DBService \<Rightarrow> js_error + AnalysisEntry list" where
  "getAllEntries ev s =
     (case getStore s of
        Inl e \<Rightarrow> Inl e
      | Inr d \<Rightarrow> (case ev of
                   OnError e \<Rightarrow> Inl e
                 | OnSuccess \<Rightarrow> Inr (rev (indexGetAll timestamp entry_id (store_entries d)))))"

definition saveEntry :: "idb_event \<Rightarrow> AnalysisEntry \<Rightarrow> DBService \<Rightarrow> js_error + DBService" where
  "saveEntry ev entry s =
     (case getStore s of
        Inl e \<Rightarrow> Inl e
      | Inr d \<Rightarrow> (case ev of
                   OnError e \<Rightarrow> Inl e
                 | OnSuccess \<Rightarrow>
                     Inr (s\<lparr>db := Some (d\<lparr>store_entries := put entry_id entry (store_entries d)\<rparr>)\<rparr>)))"

definition deleteEntry :: "idb_event \<Rightarrow> jsstring \<Rightarrow> DBService \<Rightarrow> js_error + DBService" where
  "deleteEntry ev k s =
     (case getStore s of
        Inl e \<Rightarrow> Inl e
      | Inr d \<Rightarrow> (case ev of
                   OnError e \<Rightarrow> Inl e
                 | OnSuccess \<Rightarrow>
                     Inr (s\<lparr>db := Some (d\<lparr>store_entries := delete entry_id k (store_entries d)\<rparr>)\<rparr>)))"

text \<open>
  The stores a service can reach: every record was written by \<open>put\<close>, so no two records
  of a store share a key.
\<close>

definition wellKeyed :: "DBService \<Rightarrow> bool" where
  "wellKeyed s \<longleftrightarrow>
     (case db s of
        None \<Rightarrow> True
      | Some d \<Rightarrow> distinct (map prompt_id (store_prompts d))
                \<and> distinct (map entry_id (store_entries d)))"

section \<open>services/gemini.ts\<close>

text \<open>
  One call of \<open>ai.models.generateContent\<close> hands a request to the provider and either
  throws or resolves to a response, whose \<open>text\<close> is a string or \<open>undefined\<close>. The
  provider's reply is a parameter of each method; the requests made are appended to a log,
  so that whether and how often the provider was called can be read off. Both methods
  catch a thrown error only to write it to the console and throw it again.
\<close>

record request =
  model :: jsstring
  parts :: "jsstring list"
  temperature :: "real option"
  systemInstruction :: "jsstring option"

datatype provider_reply = Throws js_error | Response "jsstring option"

definition nl :: jsstring where
  "nl = [0xA]"

definition modelId :: jsstring where
  "modelId = str ''gemini-2.5-flash''"

definition generateContent :: "provider_reply \<Rightarrow> request \<Rightarrow> request list \<Rightarrow> provider_reply \<times> request list" where
  "generateContent reply req calls = (reply, calls @ [req])"

definition analyzeRequest :: "jsstring \<Rightarrow> jsstring \<Rightarrow> request" where
  "analyzeRequest txt promptInstruction =
     \<lparr>model = modelId,
      parts = [str ''INSTRUCTION: '' @ promptInstruction,
               str ''TRANSCRIPT/TEXT TO ANALYZE:'' @ nl @ txt],
      temperature = Some (3 / 10),
      systemInstruction = None\<rparr>"

definition analyzeText ::
  "provider_reply \<Rightarrow> jsstring \<Rightarrow> jsstring \<Rightarrow> request list \<Rightarrow> (js_error + jsstring) \<times> request list" where
  "analyzeText reply txt promptInstruction calls =
     (case generateContent reply (analyzeRequest txt promptInstruction) calls of
        (Throws e, calls') \<Rightarrow> (Inl e, calls')
      | (Response t, calls') \<Rightarrow> (Inr (orStr t (str ''No response generated.'')), calls'))"

text \<open>
  The template literal of \<open>searchDatabase\<close> for one entry.
  \<open>new Date(entry.timestamp).toLocaleDateString()\<close> depends on the locale and time zone of
  the browser and is the parameter \<open>toLocaleDateString\<close>.
\<close>

definition entryBlock :: "(int \<Rightarrow> jsstring) \<Rightarrow> AnalysisEntry \<Rightarrow> jsstring" where
  "entryBlock toLocaleDateString entry =
     nl @ str ''---'' @ nl
     @ str ''Entry ID: '' @ entry_id entry @ nl
     @ str ''Date: '' @ toLocaleDateString (timestamp entry) @ nl
     @ str ''Title: '' @ entry_title entry @ nl
     @ str ''Summary/Analysis: '' @ analysis entry @ nl
     @ str ''Original Excerpt (First 300 chars): '' @ substring0 (originalText entry) 300
     @ str ''...'' @ nl
     @ str ''---'' @ nl
     @ str ''        ''"

definition contextData :: "(int \<Rightarrow> jsstring) \<Rightarrow> AnalysisEntry list \<Rightarrow> jsstring" where
  "contextData toLocaleDateString entries =
     join nl (map (entryBlock toLocaleDateString) (take 50 entries))"

definition searchInstruction :: jsstring where
  "searchInstruction =
     str ''You are a knowledge base assistant. '' @ nl
     @ str ''You have access to a list of analyzed interview transcripts/texts. '' @ nl
     @ str ''Your job is to answer the user's question based ONLY on the provided database context.'' @ nl
     @ str ''If the answer is not in the context, say you don't know. '' @ nl
     @ str ''Cite the Entry ID or Title when referencing specific information.''"

definition searchRequest :: "(int \<Rightarrow> jsstring) \<Rightarrow> jsstring \<Rightarrow> AnalysisEntry list \<Rightarrow> request" where
  "searchRequest toLocaleDateString query entries =
     \<lparr>model = modelId,
      parts = [str ''DATABASE CONTEXT:'' @ nl @ contextData toLocaleDateString entries,
               str ''USER QUESTION: '' @ query],
      temperature = None,
      systemInstruction = Some searchInstruction\<rparr>"

definition searchDatabase ::
  "(int \<Rightarrow> jsstring) \<Rightarrow> provider_reply \<Rightarrow> jsstring \<Rightarrow> AnalysisEntry list \<Rightarrow> request list
     \<Rightarrow> (js_error + jsstring) \<times> request list" where
  "searchDatabase toLocaleDateString reply query entries calls =
     (case generateContent reply (searchRequest toLocaleDateString query entries) calls of
        (Throws e, calls') \<Rightarrow> (Inl e, calls')
      | (Response t, calls') \<Rightarrow>
          (Inr (orStr t (str ''I couldn't find an answer in your database.'')), calls'))"

section \<open>The world outside the components\<close>

text \<open>
  The singletons \<open>dbService\<close> and \<open>geminiService\<close> and the browser window: the database
  service, the log of requests made to the provider, and the messages shown by
  \<open>window.alert\<close>.
\<close>

record World =
  dbService :: DBService
  sent :: "request list"
  alerts :: "jsstring list"

section \<open>components/Analyzer.tsx\<close>

record Analyzer =
  prompts :: "SavedPrompt list"
  selectedPromptId :: jsstring
  inputText :: jsstring
  title :: jsstring
  isAnalyzing :: bool
  result :: "jsstring option"
  error :: "jsstring option"

definition setSelectedPromptId :: "jsstring \<Rightarrow> Analyzer \<Rightarrow> Analyzer" where
  "setSelectedPromptId v a = a\<lparr>selectedPromptId := v\<rparr>"

definition setInputText :: "jsstring \<Rightarrow> Analyzer \<Rightarrow> Analyzer" where
  "setInputText v a = a\<lparr>inputText := v\<rparr>"

definition setTitle :: "jsstring \<Rightarrow> Analyzer \<Rightarrow> Analyzer" where
  "setTitle v a = a\<lparr>title := v\<rparr>"

definition handleRunAnalysis :: "provider_reply \<Rightarrow> Analyzer \<times> World \<Rightarrow> Analyzer \<times> World" where
  "handleRunAnalysis reply aw =
     (case aw of (a, w) \<Rightarrow>
        if trim (inputText a) = [] then
          (a\<lparr>error := Some (str ''Please enter text to analyze.'')\<rparr>, w)
        else if selectedPromptId a = [] then
          (a\<lparr>error := Some (str ''Please select a prompt.'')\<rparr>, w)
        else
          (case find (\<lambda>p. prompt_id p = selectedPromptId a) (prompts a) of
             None \<Rightarrow> (a, w)
           | Some promptObj \<Rightarrow>
               (let a1 = a\<lparr>isAnalyzing := True, error := None, result := None\<rparr>
                in case analyzeText reply (inputText a) (content promptObj) (sent w) of
                     (Inr output, calls') \<Rightarrow>
                       (a1\<lparr>result := Some output, isAnalyzing := False\<rparr>, w\<lparr>sent := calls'\<rparr>)
                   | (Inl e, calls') \<Rightarrow>
                       (a1\<lparr>error := Some (str ''Failed to generate analysis. Please check your connection and API key.''),
                           isAnalyzing := False\<rparr>,
                        w\<lparr>sent := calls'\<rparr>))))"

text \<open>
  \<open>handleSave\<close> of the analyzer. \<open>rnd\<close> feeds \<open>crypto.randomUUID()\<close>, \<open>now\<close> is
  \<open>Date.now()\<close> and \<open>localeString\<close> is \<open>new Date().toLocaleString()\<close>. A rejected
  \<open>saveEntry\<close> rejects the handler before any state is set. The callback
  \<open>onSaveComplete\<close> changes the view and is outside the model.
\<close>

definition newEntry ::
  "(nat \<Rightarrow> 8 word) \<Rightarrow> int \<Rightarrow> jsstring \<Rightarrow> Analyzer \<Rightarrow> jsstring \<Rightarrow> SavedPrompt \<Rightarrow> AnalysisEntry" where
  "newEntry rnd now localeString a res promptObj =
     \<lparr>entry_id = randomUUID rnd,
      entry_title = (if title a \<noteq> [] then title a else str ''Analysis - '' @ localeString),
      originalText = inputText a,
      analysis = res,
      promptId = prompt_id promptObj,
      promptSnapshot = content promptObj,
      timestamp = now\<rparr>"

definition handleSave ::
  "(nat \<Rightarrow> 8 word) \<Rightarrow> int \<Rightarrow> jsstring \<Rightarrow> idb_event \<Rightarrow> Analyzer \<times> World
     \<Rightarrow> js_error + Analyzer \<times> World" where
  "handleSave rnd now localeString ev aw =
     (case aw of (a, w) \<Rightarrow>
        (case result a of
           None \<Rightarrow> Inr (a, w)
         | Some res \<Rightarrow>
             if res = [] \<or> selectedPromptId a = [] then Inr (a, w)
             else
               (case find (\<lambda>p. prompt_id p = selectedPromptId a) (prompts a) of
                  None \<Rightarrow> Inr (a, w)
                | Some promptObj \<Rightarrow>
                    (case saveEntry ev (newEntry rnd now localeString a res promptObj) (dbService w) of
                       Inl e \<Rightarrow> Inl e
                     | Inr s' \<Rightarrow>
                         Inr (a\<lparr>inputText := [], result := None, title := []\<rparr>,
                              w\<lparr>dbService := s'\<rparr>)))))"

section \<open>components/PromptManager.tsx\<close>

text \<open>
  \<open>currentPrompt\<close> is a \<open>Partial<SavedPrompt>\<close>: each property may be absent.
\<close>

record PartialPrompt =
  cur_id :: "jsstring option"
  cur_title :: "jsstring option"
  cur_content :: "jsstring option"
  cur_createdAt :: "int option"

record PromptManager =
  pm_prompts :: "SavedPrompt list"
  isEditing :: bool
  currentPrompt :: PartialPrompt

definition asPartial :: "SavedPrompt \<Rightarrow> PartialPrompt" where
  "asPartial p =
     \<lparr>cur_id = Some (prompt_id p), cur_title = Some (prompt_title p),
      cur_content = Some (content p), cur_createdAt = createdAt p\<rparr>"

definition loadPrompts :: "idb_event \<Rightarrow> PromptManager \<times> World \<Rightarrow> PromptManager \<times> World" where
  "loadPrompts ev pw =
     (case pw of (pm, w) \<Rightarrow>
        (case getAllPrompts ev (dbService w) of
           Inl e \<Rightarrow> (pm, w)
         | Inr data \<Rightarrow> (pm\<lparr>pm_prompts := data\<rparr>, w)))"

definition handleEdit :: "SavedPrompt option \<Rightarrow> PromptManager \<Rightarrow> PromptManager" where
  "handleEdit prompt pm =
     (case prompt of
        Some p \<Rightarrow> pm\<lparr>currentPrompt := asPartial p, isEditing := True\<rparr>
      | None \<Rightarrow>
          pm\<lparr>currentPrompt :=
               \<lparr>cur_id = None, cur_title = Some [], cur_content = Some [], cur_createdAt = None\<rparr>,
             isEditing := True\<rparr>)"

text \<open>The \<open>onChange\<close> handlers of the two inputs of the editor.\<close>

definition changeTitle :: "jsstring \<Rightarrow> PromptManager \<Rightarrow> PromptManager" where
  "changeTitle v pm = pm\<lparr>currentPrompt := (currentPrompt pm)\<lparr>cur_title := Some v\<rparr>\<rparr>"

definition changeContent :: "jsstring \<Rightarrow> PromptManager \<Rightarrow> PromptManager" where
  "changeContent v pm = pm\<lparr>currentPrompt := (currentPrompt pm)\<lparr>cur_content := Some v\<rparr>\<rparr>"

text \<open>
  \<open>handleSave\<close> of the prompt manager. \<open>ev\<close> ends the \<open>put\<close> request of \<open>savePrompt\<close>,
  \<open>ev'\<close> the \<open>getAll\<close> request of the \<open>loadPrompts\<close> that follows.
\<close>

definition promptToSave :: "(nat \<Rightarrow> 8 word) \<Rightarrow> int \<Rightarrow> PartialPrompt \<Rightarrow> jsstring \<Rightarrow> jsstring \<Rightarrow> SavedPrompt" where
  "promptToSave rnd now cur t c =
     \<lparr>prompt_id = orStr (cur_id cur) (randomUUID rnd),
      prompt_title = t,
      content = c,
      createdAt = Some (orNum (cur_createdAt cur) now)\<rparr>"

definition pm_handleSave ::
  "(nat \<Rightarrow> 8 word) \<Rightarrow> int \<Rightarrow> idb_event \<Rightarrow> idb_event \<Rightarrow> PromptManager \<times> World
     \<Rightarrow> js_error + PromptManager \<times> World" where
  "pm_handleSave rnd now ev ev' pw =
     (case pw of (pm, w) \<Rightarrow>
        (case (cur_title (currentPrompt pm), cur_content (currentPrompt pm)) of
           (Some t, Some c) \<Rightarrow>
             if t = [] \<or> c = [] then Inr (pm, w)
             else
               (case savePrompt ev (promptToSave rnd now (currentPrompt pm) t c) (dbService w) of
                  Inl e \<Rightarrow> Inl e
                | Inr s' \<Rightarrow> Inr (loadPrompts ev' (pm\<lparr>isEditing := False\<rparr>, w\<lparr>dbService := s'\<rparr>)))
         | _ \<Rightarrow> Inr (pm, w)))"

text \<open>\<open>handleDelete\<close>; \<open>confirmed\<close> is the answer to \<open>window.confirm\<close>.\<close>

definition handleDelete ::
  "bool \<Rightarrow> idb_event \<Rightarrow> idb_event \<Rightarrow> jsstring \<Rightarrow> PromptManager \<times> World
     \<Rightarrow> js_error + PromptManager \<times> World" where
  "handleDelete confirmed ev ev' k pw =
     (case pw of (pm, w) \<Rightarrow>
        if confirmed then
          (case deletePrompt ev k (dbService w) of
             Inl e \<Rightarrow> Inl e
           | Inr s' \<Rightarrow> Inr (loadPrompts ev' (pm, w\<lparr>dbService := s'\<rparr>)))
        else Inr (pm, w))"

section \<open>components/KnowledgeBase.tsx\<close>

datatype role = User | Model

record ChatMessage =
  msg_role :: role
  msg_text :: jsstring
  msg_timestamp :: int

record KnowledgeBase =
  entries :: "AnalysisEntry list"
  chatQuery :: jsstring
  isChatting :: bool
  chatHistory :: "ChatMessage list"

definition loadEntries :: "idb_event \<Rightarrow> KnowledgeBase \<times> World \<Rightarrow> KnowledgeBase \<times> World" where
  "loadEntries ev kw =
     (case kw of (kb, w) \<Rightarrow>
        (case getAllEntries ev (dbService w) of
           Inl e \<Rightarrow> (kb, w)
         | Inr data \<Rightarrow> (kb\<lparr>entries := data\<rparr>, w)))"

text \<open>
  \<open>handleSmartSearch\<close>; \<open>now\<close> and \<open>now'\<close> are the two readings of \<open>Date.now()\<close>.
\<close>

definition handleSmartSearch ::
  "(int \<Rightarrow> jsstring) \<Rightarrow> provider_reply \<Rightarrow> int \<Rightarrow> int \<Rightarrow> KnowledgeBase \<times> World
     \<Rightarrow> KnowledgeBase \<times> World" where
  "handleSmartSearch toLocaleDateString reply now now' kw =
     (case kw of (kb, w) \<Rightarrow>
        if trim (chatQuery kb) = [] then (kb, w)
        else
          (let userMsg = \<lparr>msg_role = User, msg_text = chatQuery kb, msg_timestamp = now\<rparr>;
               kb1 = kb\<lparr>chatHistory := chatHistory kb @ [userMsg], isChatting := True,
                        chatQuery := []\<rparr>
           in case searchDatabase toLocaleDateString reply (msg_text userMsg) (entries kb) (sent w) of
                (Inr responseText, calls') \<Rightarrow>
                  (kb1\<lparr>chatHistory := chatHistory kb1
                         @ [\<lparr>msg_role = Model, msg_text = responseText, msg_timestamp = now'\<rparr>],
                       isChatting := False\<rparr>,
                   w\<lparr>sent := calls'\<rparr>)
              | (Inl e, calls') \<Rightarrow>
                  (kb1\<lparr>chatHistory := chatHistory kb1
                         @ [\<lparr>msg_role = Model,
                             msg_text = str ''Sorry, I encountered an error searching your database.'',
                             msg_timestamp = now'\<rparr>],
                       isChatting := False\<rparr>,
                   w\<lparr>sent := calls'\<rparr>)))"

section \<open>components/PromptManager.tsx: the import\<close>

text \<open>
  \<open>handleImport\<close> does not pass through the declared types: \<open>JSON.parse\<close> returns any JSON
  value, the cast \<open>as SavedPrompt[]\<close> checks nothing, and the object handed to \<open>store.put\<close>
  is the parsed item with its \<open>id\<close> filled in. The handler is therefore modelled on JSON
  values, and on the prompt store as IndexedDB holds it: a list of values, each under its
  key. A number is the real number that its double denotes, or an infinity (a literal too
  large for a double); JSON has no NaN. An object is the list of its properties, each name
  once, in their order.
\<close>

datatype jsnumber = NegInfinity | Finite real | Infinity

datatype json =
  JNull | JBool bool | JNum jsnumber | JStr jsstring | JArr "json list"
  | JObj "(jsstring \<times> json) list"

text \<open>
  Truthiness of the value of a property, \<open>None\<close> being \<open>undefined\<close>, and \<open>a || b\<close>.
\<close>

fun truthy :: "json option \<Rightarrow> bool" where
  "truthy None = False"
| "truthy (Some JNull) = False"
| "truthy (Some (JBool b)) = b"
| "truthy (Some (JNum n)) = (n \<noteq> Finite 0)"
| "truthy (Some (JStr s)) = (s \<noteq> [])"
| "truthy (Some (JArr xs)) = True"
| "truthy (Some (JObj ps)) = True"




text \<open>
  The keys of IndexedDB among JSON values: numbers, strings, and arrays of keys. \<open>keyOf\<close>
  evaluates the key path \<open>id\<close> on a value; \<open>store.put\<close> throws a \<open>DataError\<close> when that
  gives no key.
\<close>

fun validKey :: "json \<Rightarrow> bool" where
  "validKey (JNum n) = True"
| "validKey (JStr s) = True"
| "validKey (JArr ks) = list_all validKey ks"
| "validKey JNull = False"
| "validKey (JBool b) = False"
| "validKey (JObj ps) = False"

definition keyOf :: "json \<Rightarrow> json option" where
  "keyOf v =
     (case v of
        JObj ps \<Rightarrow>
          (case map_of ps (str ''id'') of
             Some k \<Rightarrow> if validKey k then Some k else None
           | None \<Rightarrow> None)
      | _ \<Rightarrow> None)"

definition DataError :: js_error where
  "DataError =
     JsError (str ''DataError'')
       (str ''Evaluating the object store's key path did not yield a value.'') None"

text \<open>
  \<open>dbService.savePrompt\<close> on a value that need not be a \<open>SavedPrompt\<close>; the store is \<open>None\<close>
  while \<open>db\<close> is \<open>null\<close>.
\<close>

definition savePromptValue :: "idb_event \<Rightarrow> json \<Rightarrow> json list option \<Rightarrow> js_error + json list option" where
  "savePromptValue ev v store =
     (case store of
        None \<Rightarrow> Inl (Error ''DB not initialized'')
      | Some rows \<Rightarrow>
          (case keyOf v of
             None \<Rightarrow> Inl DataError
           | Some k \<Rightarrow>
               (case ev of
                  OnError e \<Rightarrow> Inl e
                | OnSuccess \<Rightarrow> Inr (Some (put keyOf v rows)))))"

text \<open>
  The order of keys: numbers before strings before arrays; numbers by value, strings by
  code unit, arrays item by item and then by length. \<open>getAllValues\<close> is \<open>store.getAll()\<close>,
  the values in ascending order of their keys.
\<close>

fun numLess :: "jsnumber \<Rightarrow> jsnumber \<Rightarrow> bool" where
  "numLess NegInfinity b = (b \<noteq> NegInfinity)"
| "numLess (Finite a) (Finite b) = (a < b)"
| "numLess (Finite a) Infinity = True"
| "numLess (Finite a) NegInfinity = False"
| "numLess Infinity b = False"

function (sequential) keyLess :: "json \<Rightarrow> json \<Rightarrow> bool" and keysLess :: "json list \<Rightarrow> json list \<Rightarrow> bool" where
  "keyLess (JNum a) (JNum b) = numLess a b"
| "keyLess (JNum a) (JStr t) = True"
| "keyLess (JNum a) (JArr ys) = True"
| "keyLess (JStr s) (JStr t) = (s < t)"
| "keyLess (JStr s) (JArr ys) = True"
| "keyLess (JArr xs) (JArr ys) = keysLess xs ys"
| "keyLess a b = False"
| "keysLess [] [] = False"
| "keysLess [] (y # ys) = True"
| "keysLess (x # xs) [] = False"
| "keysLess (x # xs) (y # ys) = (keyLess x y \<or> (\<not> keyLess y x \<and> keysLess xs ys))"
  by pat_completeness auto
termination
  by (relation "measure (\<lambda>x. case x of
                          Inl (a, b) \<Rightarrow> size a + size b
                        | Inr (xs, ys) \<Rightarrow> size_list size xs + size_list size ys)")
    auto

definition valueLess :: "json \<Rightarrow> json \<Rightarrow> bool" where
  "valueLess v v' =
     (case (keyOf v, keyOf v') of
        (Some k, Some k') \<Rightarrow> keyLess k k'
      | _ \<Rightarrow> False)"

fun insertValue :: "json \<Rightarrow> json list \<Rightarrow> json list" where
  "insertValue v [] = [v]"
| "insertValue v (x # xs) = (if valueLess x v then x # insertValue v xs else v # x # xs)"

definition getAllValues :: "json list \<Rightarrow> json list" where
  "getAllValues rows = foldr insertValue rows []"

text \<open>
  What \<open>handleImport\<close> reads and writes: the prompt store, the \<open>prompts\<close> state of the
  component, which holds whatever \<open>getAll\<close> returned, and the alerts shown.
\<close>

record PromptsPage =
  page_store :: "json list option"
  page_prompts :: "json list"
  page_alerts :: "jsstring list"

text \<open>\<open>loadPrompts\<close> on this state.\<close>

definition loadPromptValues :: "idb_event \<Rightarrow> PromptsPage \<Rightarrow> PromptsPage" where
  "loadPromptValues ev st =
     (case page_store st of
        None \<Rightarrow> st
      | Some rows \<Rightarrow>
          (case ev of
             OnError e \<Rightarrow> st
           | OnSuccess \<Rightarrow> st\<lparr>page_prompts := getAllValues rows\<rparr>))"






text \<open>
  The two views of the prompt store agree: a \<open>SavedPrompt\<close> is the object of its
  properties, \<open>createdAt\<close> being left out when it is absent, and the state of the typed
  handlers is the page of these objects.
\<close>

definition rowOf :: "SavedPrompt \<Rightarrow> json" where
  "rowOf p =
     JObj ([(str ''id'', JStr (prompt_id p)), (str ''title'', JStr (prompt_title p)),
            (str ''content'', JStr (content p))]
           @ (case createdAt p of
                None \<Rightarrow> []
              | Some n \<Rightarrow> [(str ''createdAt'', JNum (Finite (of_int n)))]))"

definition pageOf :: "PromptManager \<times> World \<Rightarrow> PromptsPage" where
  "pageOf pw =
     (case pw of (pm, w) \<Rightarrow>
        \<lparr>page_store = map_option (\<lambda>d. map rowOf (store_prompts d)) (db (dbService w)),
         page_prompts = map rowOf (pm_prompts pm),
         page_alerts = alerts w\<rparr>)"


section \<open>Notions of the specification\<close>

text \<open>
  The \<open>GenerationError\<close> of the specification, in its words: an error of that name whose cause
  is the underlying failure. The source defines no error of its own.
\<close>

definition spec_GenerationError :: "js_error \<Rightarrow> js_error \<Rightarrow> bool" where
  "spec_GenerationError e underlying \<longleftrightarrow>
     err_name e = str ''GenerationError'' \<and> err_cause e = Some underlying"

text \<open>
  An item validates when it is an object with a truthy \<open>title\<close> and \<open>content\<close>.
  \<open>validatedItems\<close> lists what the loop hands to \<open>savePrompt\<close> for the validating items of
  a list, in order, item \<open>i\<close> drawing its identifier from \<open>rnds i\<close>. An item stops the
  loop when it is \<open>null\<close>, or validates with a truthy \<open>id\<close> of its own that is no key.
\<close>

fun validates :: "json \<Rightarrow> bool" where
  "validates (JObj ps) = (truthy (map_of ps (str ''title'')) \<and> truthy (map_of ps (str ''content'')))"
| "validates v = False"



section \<open>Example states\<close>

text \<open>A service whose database is open, with the given contents of the two stores.\<close>

definition openService :: "SavedPrompt list \<Rightarrow> AnalysisEntry list \<Rightarrow> DBService" where
  "openService ps es = \<lparr>db = Some \<lparr>store_prompts = ps, store_entries = es\<rparr>\<rparr>"

definition ex_entry :: "string \<Rightarrow> int \<Rightarrow> AnalysisEntry" where
  "ex_entry k t =
     \<lparr>entry_id = str k, entry_title = str ''Interview'', originalText = str ''T'',
      analysis = str ''R'', promptId = str ''p1'', promptSnapshot = str ''Summarize X'',
      timestamp = t\<rparr>"

definition ex_prompt :: "string \<Rightarrow> string \<Rightarrow> string \<Rightarrow> SavedPrompt" where
  "ex_prompt k t c = \<lparr>prompt_id = str k, prompt_title = str t, content = str c, createdAt = Some 1700000000000\<rparr>"

definition ex_world :: "SavedPrompt list \<Rightarrow> AnalysisEntry list \<Rightarrow> World" where
  "ex_world ps es = \<lparr>dbService = openService ps es, sent = [], alerts = []\<rparr>"

definition ex_analyzer :: "SavedPrompt list \<Rightarrow> string \<Rightarrow> jsstring \<Rightarrow> Analyzer" where
  "ex_analyzer ps sel txt =
     \<lparr>prompts = ps, selectedPromptId = str sel, inputText = txt, title = [],
      isAnalyzing = False, result = None, error = None\<rparr>"

definition ex_date :: "int \<Rightarrow> jsstring" where
  "ex_date t = str ''1/1/2024''"

definition ex_long :: "AnalysisEntry \<Rightarrow> string \<Rightarrow> string \<Rightarrow> AnalysisEntry" where
  "ex_long e tail snap = e\<lparr>originalText := replicate 300 0x41 @ str tail, promptSnapshot := str snap\<rparr>"

definition ex_quota :: js_error where
  "ex_quota = JsError (str ''ApiError'') (str ''429 quota exceeded'') None"

definition ex_kb :: "AnalysisEntry list \<Rightarrow> string \<Rightarrow> KnowledgeBase" where
  "ex_kb es q = \<lparr>entries = es, chatQuery = str q, isChatting = False, chatHistory = []\<rparr>"

definition ex_rnd :: "8 word \<Rightarrow> nat \<Rightarrow> 8 word" where
  "ex_rnd b i = b"

definition ex_manager :: "SavedPrompt list \<Rightarrow> PromptManager" where
  "ex_manager ps =
     \<lparr>pm_prompts = ps, isEditing = False,
      currentPrompt = \<lparr>cur_id = None, cur_title = None, cur_content = None, cur_createdAt = None\<rparr>\<rparr>"

text \<open>
  The user opens the editor for a new template, types the title "A" and the content "B"
  and saves; both requests succeed.
\<close>

definition ex_new_prompt :: "8 word \<Rightarrow> int \<Rightarrow> PromptManager \<times> World \<Rightarrow> js_error + PromptManager \<times> World" where
  "ex_new_prompt b now pw =
     pm_handleSave (ex_rnd b) now OnSuccess OnSuccess
       (apfst (\<lambda>pm. changeContent (str ''B'') (changeTitle (str ''A'') (handleEdit None pm))) pw)"




section \<open>The object stores\<close>

lemma put_filter_key:
  "filter (\<lambda>p. key p = key r) (put key r rows) = [r]"
  by (simp add: put_def)

lemma put_filter_others:
  "filter (\<lambda>p. key p \<noteq> key r) (put key r rows) = filter (\<lambda>p. key p \<noteq> key r) rows"
  by (simp add: put_def)


lemma put_distinct:
  assumes "distinct (map key rows)"
  shows "distinct (map key (put key r rows))"
  using assms by (auto simp: put_def distinct_map_filter)

lemma length_filter_others:
  assumes "distinct (map key rows)"
  shows "length (filter (\<lambda>p. key p \<noteq> k) rows)
         = (if k \<in> key ` set rows then length rows - 1 else length rows)"
  using assms
proof (induction rows)
  case Nil
  then show ?case by simp
next
  case (Cons x xs)
  show ?case
  proof (cases "key x = k")
    case True
    with Cons.prems have "k \<notin> key ` set xs" by auto
    then have "filter (\<lambda>p. key p \<noteq> k) xs = xs"
      by (auto simp: filter_id_conv)
    with True show ?thesis by simp
  next
    case False
    with Cons show ?thesis
      by (cases xs) auto
  qed
qed

lemma put_length:
  assumes "distinct (map key rows)"
  shows "length (put key r rows)
         = (if key r \<in> key ` set rows then length rows else Suc (length rows))"
proof -
  have "key r \<in> key ` set rows \<Longrightarrow> rows \<noteq> []" by auto
  then show ?thesis
    using length_filter_others [OF assms, of "key r"] by (auto simp: put_def)
qed

lemma getAll_filter: "filter P (getAll key rows) = getAll key (filter P rows)"
  by (simp add: getAll_def filter_sort)

lemma getAll_single: "getAll key [r] = [r]"
  by (simp add: getAll_def)

lemma getAll_length: "length (getAll key rows) = length rows"
  by (simp add: getAll_def)

lemma getAll_set: "set (getAll key rows) = set rows"
  by (simp add: getAll_def)

lemma foldl_put_subset:
  "set (foldl (\<lambda>rows r. put key r rows) rows rs) \<subseteq> set rows \<union> set rs"
proof (induction rs arbitrary: rows)
  case Nil
  then show ?case by simp
next
  case (Cons r rs)
  have "set (put key r rows) \<subseteq> set rows \<union> {r}"
    by (auto simp: put_def)
  with Cons [of "put key r rows"] show ?case
    by auto
qed




lemma foldl_put_distinct:
  assumes "distinct (map key rows)"
  shows "distinct (map key (foldl (\<lambda>rows r. put key r rows) rows rs))"
  using assms
proof (induction rs arbitrary: rows)
  case Nil
  then show ?case by simp
next
  case (Cons r rs)
  from Cons.prems have "distinct (map key (put key r rows))"
    by (rule put_distinct)
  then show ?case
    using Cons.IH by simp
qed

lemma delete_distinct:
  assumes "distinct (map key rows)"
  shows "distinct (map key (delete key k rows))"
  using assms by (simp add: delete_def distinct_map_filter)

text \<open>
  \<open>wellKeyed\<close> holds of the empty database and is kept by every method that writes.
\<close>

lemma wellKeyed_empty: "wellKeyed \<lparr>db = Some \<lparr>store_prompts = [], store_entries = []\<rparr>\<rparr>"
  by (simp add: wellKeyed_def)

lemma wellKeyed_savePrompt:
  "wellKeyed s \<Longrightarrow> savePrompt ev p s = Inr s' \<Longrightarrow> wellKeyed s'"
  by (cases ev; cases "db s") (auto simp: savePrompt_def getStore_def wellKeyed_def put_distinct)

lemma wellKeyed_deletePrompt:
  "wellKeyed s \<Longrightarrow> deletePrompt ev k s = Inr s' \<Longrightarrow> wellKeyed s'"
  by (cases ev; cases "db s") (auto simp: deletePrompt_def getStore_def wellKeyed_def delete_distinct)

lemma wellKeyed_saveEntry:
  "wellKeyed s \<Longrightarrow> saveEntry ev e s = Inr s' \<Longrightarrow> wellKeyed s'"
  by (cases ev; cases "db s") (auto simp: saveEntry_def getStore_def wellKeyed_def put_distinct)

lemma wellKeyed_deleteEntry:
  "wellKeyed s \<Longrightarrow> deleteEntry ev k s = Inr s' \<Longrightarrow> wellKeyed s'"
  by (cases ev; cases "db s") (auto simp: deleteEntry_def getStore_def wellKeyed_def delete_distinct)

lemma wellKeyed_stores:
  "wellKeyed s \<Longrightarrow> db s = Some d \<Longrightarrow>
     distinct (map prompt_id (store_prompts d)) \<and> distinct (map entry_id (store_entries d))"
  by (simp add: wellKeyed_def)

lemma savePrompt_entries:
  "savePrompt ev p s = Inr s' \<Longrightarrow> db s = Some d \<Longrightarrow>
     \<exists>d'. db s' = Some d' \<and> store_entries d' = store_entries d"
  by (cases ev) (auto simp: savePrompt_def getStore_def)

lemma deletePrompt_entries:
  "deletePrompt ev k s = Inr s' \<Longrightarrow> db s = Some d \<Longrightarrow>
     \<exists>d'. db s' = Some d' \<and> store_entries d' = store_entries d"
  by (cases ev) (auto simp: deletePrompt_def getStore_def)

section \<open>Strings and identifiers\<close>

lemma trim_empty_iff: "trim s = [] \<longleftrightarrow> (\<forall>c\<in>set s. isWhiteSpace c)"
proof
  assume "trim s = []"
  then have all: "\<forall>c\<in>set (dropWhile isWhiteSpace s). isWhiteSpace c"
    by (simp add: trim_def dropWhile_eq_Nil_conv)
  have "dropWhile isWhiteSpace s = []"
  proof (rule ccontr)
    assume ne: "dropWhile isWhiteSpace s \<noteq> []"
    then have "\<not> isWhiteSpace (hd (dropWhile isWhiteSpace s))"
      by (rule hd_dropWhile)
    moreover have "hd (dropWhile isWhiteSpace s) \<in> set (dropWhile isWhiteSpace s)"
      using ne by simp
    ultimately show False
      using all by blast
  qed
  then show "\<forall>c\<in>set s. isWhiteSpace c"
    by (simp add: dropWhile_eq_Nil_conv)
next
  assume "\<forall>c\<in>set s. isWhiteSpace c"
  then show "trim s = []"
    by (auto simp: trim_def dest: set_dropWhileD)
qed

lemma str_nonempty: "s \<noteq> [] \<Longrightarrow> str s \<noteq> []"
  by (simp add: str_def)

lemma orStr_nonempty: "d \<noteq> [] \<Longrightarrow> orStr t d \<noteq> []"
  by (cases t) auto

lemma orStr_cases: "orStr t d = d \<or> (t = Some (orStr t d) \<and> orStr t d \<noteq> [])"
  by (cases t) auto

lemma join_mem_infix: "x \<in> set xs \<Longrightarrow> \<exists>pre post. join sep xs = pre @ x @ post"
proof (induction sep xs rule: join.induct)
  case (1 sep)
  then show ?case by simp
next
  case (2 sep y)
  then have "join sep [y] = [] @ x @ []" by simp
  then show ?case by blast
next
  case (3 sep y z zs)
  show ?case
  proof (cases "x = y")
    case True
    then have "join sep (y # z # zs) = [] @ x @ (sep @ join sep (z # zs))" by simp
    then show ?thesis by blast
  next
    case False
    with 3 obtain pre post where "join sep (z # zs) = pre @ x @ post" by auto
    then have "join sep (y # z # zs) = (y @ sep @ pre) @ x @ post" by simp
    then show ?thesis by blast
  qed
qed

lemma randomUUID_nonempty: "randomUUID rnd \<noteq> []"
  by (simp add: randomUUID_def str_def Let_def)

lemma ex_uuid0: "randomUUID (ex_rnd 0) = str ''00000000-0000-4000-8000-000000000000''"
  by (simp add: randomUUID_def uuidBytes_def ex_rnd_def hexByte_def hexDigit_def str_def upt_rec)

lemma ex_uuid1: "randomUUID (ex_rnd 0xAB) = str ''abababab-abab-4bab-abab-abababababab''"
  by (simp add: randomUUID_def uuidBytes_def ex_rnd_def hexByte_def hexDigit_def str_def upt_rec)

section \<open>The snapshot of a saved entry\<close>

text \<open>
  C1 at a failing input. Templates \<open>p1\<close> (content "Summarize X") and \<open>p2\<close> (content
  "Summarize Y") are loaded and \<open>p1\<close> is selected. The analysis of "T" is requested with
  the instruction "Summarize X". The user then selects \<open>p2\<close> and saves: the entry stored
  with that analysis carries \<open>promptId\<close> \<open>p2\<close> and the snapshot "Summarize Y".
\<close>

theorem snapshot_follows_selection_at_save:
  "handleSave (ex_rnd 0) 1700000000001 (str ''1/1/2024, 10:00:00 AM'') OnSuccess
     (apfst (setSelectedPromptId (str ''p2''))
        (handleRunAnalysis (Response (Some (str ''R'')))
           (ex_analyzer [ex_prompt ''p1'' ''A'' ''Summarize X'', ex_prompt ''p2'' ''B'' ''Summarize Y'']
              ''p1'' (str ''T''),
            ex_world [ex_prompt ''p1'' ''A'' ''Summarize X'', ex_prompt ''p2'' ''B'' ''Summarize Y''] [])))
   = Inr (ex_analyzer [ex_prompt ''p1'' ''A'' ''Summarize X'', ex_prompt ''p2'' ''B'' ''Summarize Y'']
            ''p2'' [],
          \<lparr>dbService =
             openService [ex_prompt ''p1'' ''A'' ''Summarize X'', ex_prompt ''p2'' ''B'' ''Summarize Y'']
               [\<lparr>entry_id = randomUUID (ex_rnd 0),
                 entry_title = str ''Analysis - 1/1/2024, 10:00:00 AM'',
                 originalText = str ''T'',
                 analysis = str ''R'',
                 promptId = str ''p2'',
                 promptSnapshot = str ''Summarize Y'',
                 timestamp = 1700000000001\<rparr>],
           sent = [analyzeRequest (str ''T'') (str ''Summarize X'')],
           alerts = []\<rparr>)"
  by (simp add: handleSave_def handleRunAnalysis_def setSelectedPromptId_def analyzeText_def
      generateContent_def ex_analyzer_def ex_world_def ex_prompt_def openService_def newEntry_def
      saveEntry_def getStore_def put_def trim_def isWhiteSpace_def str_def)

section \<open>The entry list of the knowledge base\<close>

lemma indexGetAll_set: "set (indexGetAll ix key rows) = set rows"
  by (simp add: indexGetAll_def)

lemma indexGetAll_length: "length (indexGetAll ix key rows) = length rows"
  by (simp add: indexGetAll_def)

lemma indexGetAll_sorted: "sorted (map (\<lambda>r. (ix r, key r)) (indexGetAll ix key rows))"
  by (simp add: indexGetAll_def sorted_sort_key)

lemma indexGetAll_distinct:
  assumes "distinct (map key rows)"
  shows "distinct (map (\<lambda>r. (ix r, key r)) (indexGetAll ix key rows))"
proof -
  have "distinct (map key (indexGetAll ix key rows))"
    using assms by (simp add: indexGetAll_def distinct_map)
  then have "inj_on key (set (indexGetAll ix key rows))" and "distinct (indexGetAll ix key rows)"
    by (simp_all add: distinct_map)
  then show ?thesis
    by (auto simp: distinct_map inj_on_def)
qed

lemma indexGetAll_unique:
  assumes "distinct (map key rows)" and "distinct (map key rows')" and "set rows' = set rows"
  shows "indexGetAll ix key rows' = indexGetAll ix key rows"
proof -
  let ?f = "\<lambda>r. (ix r, key r)"
  have "map ?f (indexGetAll ix key rows') = map ?f (indexGetAll ix key rows)"
  proof (rule sorted_distinct_set_unique)
    show "set (map ?f (indexGetAll ix key rows')) = set (map ?f (indexGetAll ix key rows))"
      using assms(3) by (simp add: indexGetAll_set)
  qed (simp_all add: indexGetAll_sorted indexGetAll_distinct assms)
  moreover have "inj_on ?f (set (indexGetAll ix key rows') \<union> set (indexGetAll ix key rows))"
    using assms(1) by (auto simp: indexGetAll_set assms(3) distinct_map inj_on_def)
  ultimately show ?thesis
    by (rule map_inj_on)
qed

lemma indexGetAll_rev_order:
  assumes "distinct (map key rows)"
  shows "sorted_wrt (\<lambda>a b. ix b < ix a \<or> (ix b = ix a \<and> key b < key a)) (rev (indexGetAll ix key rows))"
proof -
  let ?f = "\<lambda>r. (ix r, key r)"
  have "sorted_wrt (<) (map ?f (indexGetAll ix key rows))"
    using indexGetAll_sorted [of ix key rows] indexGetAll_distinct [OF assms, of ix]
    by (simp add: strict_sorted_iff)
  then have "sorted_wrt (\<lambda>a b. ?f a < ?f b) (indexGetAll ix key rows)"
    by (simp add: sorted_wrt_map)
  then have "sorted_wrt (\<lambda>a b. ?f b < ?f a) (rev (indexGetAll ix key rows))"
    by (simp add: sorted_wrt_rev)
  then show ?thesis
    by (rule sorted_wrt_mono_rel [rotated]) (auto simp: less_prod_def)
qed

text \<open>
  C2. When the service is open and the read succeeds, \<open>getAllEntries\<close> returns all stored
  entries, each once, in descending order of \<open>timestamp\<close>; entries of equal timestamp come
  in descending order of their identifier, and the list is the same for every store that
  holds the same entries, whatever the order in which they were written.
\<close>

theorem getAllEntries_descending:
  assumes "wellKeyed s" and "db s = Some d"
  shows "\<exists>es. getAllEntries OnSuccess s = Inr es
           \<and> set es = set (store_entries d) \<and> length es = length (store_entries d)
           \<and> sorted_wrt (\<lambda>a b. timestamp b \<le> timestamp a) es
           \<and> sorted_wrt (\<lambda>a b. timestamp b < timestamp a
                  \<or> (timestamp b = timestamp a \<and> entry_id b < entry_id a)) es
           \<and> (\<forall>s' d'. wellKeyed s' \<and> db s' = Some d'
                  \<and> set (store_entries d') = set (store_entries d)
                \<longrightarrow> getAllEntries OnSuccess s' = Inr es)"
proof -
  let ?es = "rev (indexGetAll timestamp entry_id (store_entries d))"
  have dist: "distinct (map entry_id (store_entries d))"
    using wellKeyed_stores [OF assms] by simp
  have 1: "getAllEntries OnSuccess s = Inr ?es"
    using assms(2) by (simp add: getAllEntries_def getStore_def)
  have 2: "set ?es = set (store_entries d)" "length ?es = length (store_entries d)"
    by (simp_all add: indexGetAll_set indexGetAll_length)
  have 3: "sorted_wrt (\<lambda>a b. timestamp b < timestamp a
                  \<or> (timestamp b = timestamp a \<and> entry_id b < entry_id a)) ?es"
    by (rule indexGetAll_rev_order [OF dist])
  have 4: "sorted_wrt (\<lambda>a b. timestamp b \<le> timestamp a) ?es"
    by (rule sorted_wrt_mono_rel [OF _ 3]) auto
  have 5: "getAllEntries OnSuccess s' = Inr ?es"
    if "wellKeyed s'" "db s' = Some d'" "set (store_entries d') = set (store_entries d)" for s' d'
  proof -
    have "distinct (map entry_id (store_entries d'))"
      using wellKeyed_stores [OF that(1) that(2)] by simp
    from indexGetAll_unique [OF dist this that(3), of timestamp] that(2) show ?thesis
      by (simp add: getAllEntries_def getStore_def)
  qed
  show ?thesis
    using 1 2 3 4 5 by blast
qed

theorem getAllEntries_descending_witness:
  "wellKeyed (openService [] [ex_entry ''a'' 5, ex_entry ''b'' 7, ex_entry ''c'' 5])
   \<and> db (openService [] [ex_entry ''a'' 5, ex_entry ''b'' 7, ex_entry ''c'' 5])
     = Some \<lparr>store_prompts = [], store_entries = [ex_entry ''a'' 5, ex_entry ''b'' 7, ex_entry ''c'' 5]\<rparr>
   \<and> getAllEntries OnSuccess (openService [] [ex_entry ''a'' 5, ex_entry ''b'' 7, ex_entry ''c'' 5])
       = Inr [ex_entry ''b'' 7, ex_entry ''c'' 5, ex_entry ''a'' 5]
   \<and> getAllEntries OnSuccess (openService [] [ex_entry ''c'' 5, ex_entry ''a'' 5, ex_entry ''b'' 7])
       = Inr [ex_entry ''b'' 7, ex_entry ''c'' 5, ex_entry ''a'' 5]"
proof -
  let ?s = "openService [] [ex_entry ''a'' 5, ex_entry ''b'' 7, ex_entry ''c'' 5]"
  let ?s' = "openService [] [ex_entry ''c'' 5, ex_entry ''a'' 5, ex_entry ''b'' 7]"
  let ?d = "\<lparr>store_prompts = [], store_entries = [ex_entry ''a'' 5, ex_entry ''b'' 7, ex_entry ''c'' 5]\<rparr>"
  let ?d' = "\<lparr>store_prompts = [], store_entries = [ex_entry ''c'' 5, ex_entry ''a'' 5, ex_entry ''b'' 7]\<rparr>"
  have h1: "wellKeyed ?s"
    by (simp add: wellKeyed_def openService_def ex_entry_def str_def)
  have h2: "db ?s = Some ?d"
    by (simp add: openService_def)
  have h3: "wellKeyed ?s' \<and> db ?s' = Some ?d' \<and> set (store_entries ?d') = set (store_entries ?d)"
    by (auto simp add: wellKeyed_def openService_def ex_entry_def str_def)
  have c: "getAllEntries OnSuccess ?s = Inr [ex_entry ''b'' 7, ex_entry ''c'' 5, ex_entry ''a'' 5]"
    by (simp add: getAllEntries_def getStore_def openService_def indexGetAll_def ex_entry_def str_def)
  from getAllEntries_descending [OF h1 h2] obtain es where
    es: "getAllEntries OnSuccess ?s = Inr es"
    and det: "\<forall>s' d'. wellKeyed s' \<and> db s' = Some d'
                  \<and> set (store_entries d') = set (store_entries ?d)
                \<longrightarrow> getAllEntries OnSuccess s' = Inr es"
    by blast
  from det h3 have "getAllEntries OnSuccess ?s' = Inr es"
    by blast
  with es c h1 h2 show ?thesis by simp
qed

section \<open>The context document of a question\<close>

lemma entryBlock_fields:
  assumes "entry_id e' = entry_id e" and "timestamp e' = timestamp e"
    and "entry_title e' = entry_title e" and "analysis e' = analysis e"
    and "take 300 (originalText e') = take 300 (originalText e)"
  shows "entryBlock d e' = entryBlock d e"
  using assms by (simp add: entryBlock_def substring0_def)

lemma entryBlock_labelled:
  "\<exists>pre post. entryBlock d e =
     pre @ str ''Entry ID: '' @ entry_id e @ nl
         @ str ''Date: '' @ d (timestamp e) @ nl
         @ str ''Title: '' @ entry_title e @ nl
         @ str ''Summary/Analysis: '' @ analysis e @ nl
         @ str ''Original Excerpt (First 300 chars): '' @ take 300 (originalText e) @ str ''...''
         @ post"
proof -
  have "entryBlock d e =
     (nl @ str ''---'' @ nl) @ str ''Entry ID: '' @ entry_id e @ nl
         @ str ''Date: '' @ d (timestamp e) @ nl
         @ str ''Title: '' @ entry_title e @ nl
         @ str ''Summary/Analysis: '' @ analysis e @ nl
         @ str ''Original Excerpt (First 300 chars): '' @ take 300 (originalText e) @ str ''...''
         @ (nl @ str ''---'' @ nl @ str ''        '')"
    by (simp add: entryBlock_def substring0_def)
  then show ?thesis by blast
qed

lemma contextData_contains:
  assumes "e \<in> set (take 50 es)"
  shows "\<exists>pre post. contextData d es =
     pre @ str ''Entry ID: '' @ entry_id e @ nl
         @ str ''Date: '' @ d (timestamp e) @ nl
         @ str ''Title: '' @ entry_title e @ nl
         @ str ''Summary/Analysis: '' @ analysis e @ nl
         @ str ''Original Excerpt (First 300 chars): '' @ take 300 (originalText e) @ str ''...''
         @ post"
proof -
  have "entryBlock d e \<in> set (map (entryBlock d) (take 50 es))"
    using assms by simp
  then obtain p q where pq: "contextData d es = p @ entryBlock d e @ q"
    unfolding contextData_def using join_mem_infix by blast
  obtain p' q' where "entryBlock d e =
     p' @ str ''Entry ID: '' @ entry_id e @ nl
         @ str ''Date: '' @ d (timestamp e) @ nl
         @ str ''Title: '' @ entry_title e @ nl
         @ str ''Summary/Analysis: '' @ analysis e @ nl
         @ str ''Original Excerpt (First 300 chars): '' @ take 300 (originalText e) @ str ''...''
         @ q'"
    using entryBlock_labelled by blast
  with pq have "contextData d es =
     (p @ p') @ str ''Entry ID: '' @ entry_id e @ nl
         @ str ''Date: '' @ d (timestamp e) @ nl
         @ str ''Title: '' @ entry_title e @ nl
         @ str ''Summary/Analysis: '' @ analysis e @ nl
         @ str ''Original Excerpt (First 300 chars): '' @ take 300 (originalText e) @ str ''...''
         @ (q' @ q)"
    by simp
  then show ?thesis by blast
qed

lemma contextData_view:
  assumes "map (\<lambda>e. (entry_id e, timestamp e, entry_title e, analysis e, take 300 (originalText e)))
             (take 50 es')
           = map (\<lambda>e. (entry_id e, timestamp e, entry_title e, analysis e, take 300 (originalText e)))
             (take 50 es)"
  shows "contextData d es' = contextData d es"
proof -
  let ?view = "\<lambda>e. (entry_id e, timestamp e, entry_title e, analysis e, take 300 (originalText e))"
  let ?g = "\<lambda>(i, t, ti, an, ex).
     entryBlock d \<lparr>entry_id = i, entry_title = ti, originalText = ex, analysis = an,
                   promptId = [], promptSnapshot = [], timestamp = t\<rparr>"
  have "entryBlock d e = ?g (?view e)" for e
    by (simp add: entryBlock_def substring0_def)
  then have m: "map (entryBlock d) xs = map ?g (map ?view xs)" for xs
    by simp
  have "map (entryBlock d) (take 50 es') = map ?g (map ?view (take 50 es'))"
    by (rule m)
  also have "\<dots> = map ?g (map ?view (take 50 es))"
    by (rule arg_cong [OF assms])
  also have "\<dots> = map (entryBlock d) (take 50 es)"
    by (rule m [symmetric])
  finally show ?thesis
    by (simp only: contextData_def)
qed

text \<open>
  C3. \<open>searchDatabase\<close> makes one request, whose first part is the context document of
  the entry list. The document is that of the first 50 entries of the list: each of them
  contributes its identifier, date, title, analysis and the first 300 code units of its
  original text under their labels, and two lists whose first 50 entries agree on these
  five values give the same call, whatever the rest of the original texts, the other
  fields and the entries after the fiftieth are.
\<close>

theorem searchDatabase_context_bounded:
  "snd (searchDatabase d reply q es calls) = calls @ [searchRequest d q es]
   \<and> parts (searchRequest d q es)
       = [str ''DATABASE CONTEXT:'' @ nl @ contextData d es, str ''USER QUESTION: '' @ q]
   \<and> contextData d es = contextData d (take 50 es)
   \<and> (\<forall>e\<in>set (take 50 es). \<exists>pre post. contextData d es =
         pre @ str ''Entry ID: '' @ entry_id e @ nl
             @ str ''Date: '' @ d (timestamp e) @ nl
             @ str ''Title: '' @ entry_title e @ nl
             @ str ''Summary/Analysis: '' @ analysis e @ nl
             @ str ''Original Excerpt (First 300 chars): '' @ take 300 (originalText e) @ str ''...''
             @ post)
   \<and> (\<forall>es'.
         map (\<lambda>e. (entry_id e, timestamp e, entry_title e, analysis e, take 300 (originalText e)))
           (take 50 es')
         = map (\<lambda>e. (entry_id e, timestamp e, entry_title e, analysis e, take 300 (originalText e)))
           (take 50 es)
         \<longrightarrow> searchDatabase d reply q es' calls = searchDatabase d reply q es calls)"
proof -
  have 1: "snd (searchDatabase d reply q es calls) = calls @ [searchRequest d q es]"
    by (cases reply) (simp_all add: searchDatabase_def generateContent_def)
  have 2: "parts (searchRequest d q es)
       = [str ''DATABASE CONTEXT:'' @ nl @ contextData d es, str ''USER QUESTION: '' @ q]"
    by (simp add: searchRequest_def)
  have 3: "contextData d es = contextData d (take 50 es)"
    by (simp add: contextData_def)
  have 5: "searchDatabase d reply q es' calls = searchDatabase d reply q es calls"
    if "map (\<lambda>e. (entry_id e, timestamp e, entry_title e, analysis e, take 300 (originalText e)))
           (take 50 es')
         = map (\<lambda>e. (entry_id e, timestamp e, entry_title e, analysis e, take 300 (originalText e)))
           (take 50 es)" for es'
    using contextData_view [OF that, of d]
    by (simp add: searchDatabase_def searchRequest_def)
  have 4: "\<forall>e\<in>set (take 50 es). \<exists>pre post. contextData d es =
         pre @ str ''Entry ID: '' @ entry_id e @ nl
             @ str ''Date: '' @ d (timestamp e) @ nl
             @ str ''Title: '' @ entry_title e @ nl
             @ str ''Summary/Analysis: '' @ analysis e @ nl
             @ str ''Original Excerpt (First 300 chars): '' @ take 300 (originalText e) @ str ''...''
             @ post"
    using contextData_contains by blast
  have 6: "\<forall>es'.
         map (\<lambda>e. (entry_id e, timestamp e, entry_title e, analysis e, take 300 (originalText e)))
           (take 50 es')
         = map (\<lambda>e. (entry_id e, timestamp e, entry_title e, analysis e, take 300 (originalText e)))
           (take 50 es)
         \<longrightarrow> searchDatabase d reply q es' calls = searchDatabase d reply q es calls"
    using 5 by blast
  from 1 2 3 4 6 show ?thesis
    by (intro conjI)
qed

theorem searchDatabase_context_bounded_witness:
  "ex_long (ex_entry ''a'' 5) ''one'' ''X''
     \<in> set (take 50 (replicate 50 (ex_long (ex_entry ''a'' 5) ''one'' ''X'') @ [ex_entry ''b'' 3]))
   \<and> (\<exists>pre post.
         contextData ex_date (replicate 50 (ex_long (ex_entry ''a'' 5) ''one'' ''X'') @ [ex_entry ''b'' 3]) =
         pre @ str ''Entry ID: '' @ str ''a'' @ nl
             @ str ''Date: '' @ ex_date 5 @ nl
             @ str ''Title: '' @ str ''Interview'' @ nl
             @ str ''Summary/Analysis: '' @ str ''R'' @ nl
             @ str ''Original Excerpt (First 300 chars): '' @ replicate 300 0x41 @ str ''...''
             @ post)
   \<and> searchDatabase ex_date (Response None) (str ''who?'') (replicate 50 (ex_long (ex_entry ''a'' 5) ''other'' ''Y'') @ [ex_entry ''c'' 9]) []
       = searchDatabase ex_date (Response None) (str ''who?'') (replicate 50 (ex_long (ex_entry ''a'' 5) ''one'' ''X'') @ [ex_entry ''b'' 3]) []"
proof -
  let ?e = "ex_long (ex_entry ''a'' 5) ''one'' ''X''"
  let ?es = "replicate 50 ?e @ [ex_entry ''b'' 3]"
  let ?es' = "replicate 50 (ex_long (ex_entry ''a'' 5) ''other'' ''Y'') @ [ex_entry ''c'' 9]"
  have h1: "?e \<in> set (take 50 ?es)"
    by simp
  have h2: "map (\<lambda>e. (entry_id e, timestamp e, entry_title e, analysis e, take 300 (originalText e)))
           (take 50 ?es')
         = map (\<lambda>e. (entry_id e, timestamp e, entry_title e, analysis e, take 300 (originalText e)))
           (take 50 ?es)"
    by (simp add: ex_long_def)
  have f: "entry_id ?e = str ''a''" "timestamp ?e = 5" "entry_title ?e = str ''Interview''"
    "analysis ?e = str ''R''" "take 300 (originalText ?e) = replicate 300 0x41"
    by (simp_all add: ex_long_def ex_entry_def)
  note t = searchDatabase_context_bounded [of ex_date "Response None" "str ''who?''" ?es "[]"]
  from t have c4: "\<forall>e\<in>set (take 50 ?es). \<exists>pre post. contextData ex_date ?es =
         pre @ str ''Entry ID: '' @ entry_id e @ nl
             @ str ''Date: '' @ ex_date (timestamp e) @ nl
             @ str ''Title: '' @ entry_title e @ nl
             @ str ''Summary/Analysis: '' @ analysis e @ nl
             @ str ''Original Excerpt (First 300 chars): '' @ take 300 (originalText e) @ str ''...''
             @ post"
    by (elim conjE)
  from t have c5: "\<forall>es'.
         map (\<lambda>e. (entry_id e, timestamp e, entry_title e, analysis e, take 300 (originalText e)))
           (take 50 es')
         = map (\<lambda>e. (entry_id e, timestamp e, entry_title e, analysis e, take 300 (originalText e)))
           (take 50 ?es)
         \<longrightarrow> searchDatabase ex_date (Response None) (str ''who?'') es' [] = searchDatabase ex_date (Response None) (str ''who?'') ?es []"
    by (elim conjE)
  from c4 h1 have a: "\<exists>pre post. contextData ex_date ?es =
         pre @ str ''Entry ID: '' @ entry_id ?e @ nl
             @ str ''Date: '' @ ex_date (timestamp ?e) @ nl
             @ str ''Title: '' @ entry_title ?e @ nl
             @ str ''Summary/Analysis: '' @ analysis ?e @ nl
             @ str ''Original Excerpt (First 300 chars): '' @ take 300 (originalText ?e) @ str ''...''
             @ post"
    by (rule bspec)
  from c5 h2 have b: "searchDatabase ex_date (Response None) (str ''who?'') ?es' [] = searchDatabase ex_date (Response None) (str ''who?'') ?es []"
    by (elim allE impE)
  from h1 a b show ?thesis
    unfolding f by (intro conjI)
qed

section \<open>Validation of the input text\<close>

text \<open>
  C4. When the input text is empty or consists of white space only, \<open>handleRunAnalysis\<close>
  makes no request to the provider (the log is unchanged), sets the validation message,
  and leaves the result, every other field of the component and the database as they were.
\<close>

theorem handleRunAnalysis_blank_input:
  assumes "\<forall>c\<in>set (inputText a). isWhiteSpace c"
  shows "handleRunAnalysis reply (a, w) = (a\<lparr>error := Some (str ''Please enter text to analyze.'')\<rparr>, w)
         \<and> sent (snd (handleRunAnalysis reply (a, w))) = sent w
         \<and> dbService (snd (handleRunAnalysis reply (a, w))) = dbService w
         \<and> result (fst (handleRunAnalysis reply (a, w))) = result a
         \<and> error (fst (handleRunAnalysis reply (a, w))) = Some (str ''Please enter text to analyze.'')"
proof -
  have "trim (inputText a) = []"
    using assms by (simp add: trim_empty_iff)
  then show ?thesis
    by (simp add: handleRunAnalysis_def)
qed

theorem handleRunAnalysis_blank_input_witness:
  "inputText (ex_analyzer [ex_prompt ''p1'' ''A'' ''Summarize X''] ''p1'' [0x20, 0x3000, 0xA])
     = [0x20, 0x3000, 0xA]
   \<and> isWhiteSpace 0x20 \<and> isWhiteSpace 0x3000 \<and> isWhiteSpace 0xA
   \<and> handleRunAnalysis (Response (Some (str ''R'')))
        (ex_analyzer [ex_prompt ''p1'' ''A'' ''Summarize X''] ''p1'' [0x20, 0x3000, 0xA],
         ex_world [ex_prompt ''p1'' ''A'' ''Summarize X''] [])
      = ((ex_analyzer [ex_prompt ''p1'' ''A'' ''Summarize X''] ''p1'' [0x20, 0x3000, 0xA])
           \<lparr>error := Some (str ''Please enter text to analyze.'')\<rparr>,
         ex_world [ex_prompt ''p1'' ''A'' ''Summarize X''] [])"
proof -
  have h: "\<forall>c\<in>set (inputText (ex_analyzer [ex_prompt ''p1'' ''A'' ''Summarize X''] ''p1'' [0x20, 0x3000, 0xA])). isWhiteSpace c"
    by (simp add: ex_analyzer_def isWhiteSpace_def)
  have i: "inputText (ex_analyzer [ex_prompt ''p1'' ''A'' ''Summarize X''] ''p1'' [0x20, 0x3000, 0xA])
     = [0x20, 0x3000, 0xA]"
    by (simp add: ex_analyzer_def)
  have ws: "isWhiteSpace 0x20 \<and> isWhiteSpace 0x3000 \<and> isWhiteSpace 0xA"
    by (simp add: isWhiteSpace_def)
  from handleRunAnalysis_blank_input [OF h] i ws show ?thesis
    by blast
qed

section \<open>Saving a template and listing\<close>

lemma pm_handleSave_success:
  assumes "db (dbService w) = Some d"
    and "cur_title (currentPrompt pm) = Some t" and "cur_content (currentPrompt pm) = Some c"
    and "t \<noteq> []" and "c \<noteq> []"
  shows "pm_handleSave rnd now OnSuccess OnSuccess (pm, w)
         = Inr (pm\<lparr>isEditing := False,
                   pm_prompts := getAll prompt_id
                     (put prompt_id (promptToSave rnd now (currentPrompt pm) t c) (store_prompts d))\<rparr>,
                w\<lparr>dbService := (dbService w)
                     \<lparr>db := Some (d\<lparr>store_prompts :=
                        put prompt_id (promptToSave rnd now (currentPrompt pm) t c) (store_prompts d)\<rparr>)\<rparr>\<rparr>)"
  using assms
  by (simp add: pm_handleSave_def savePrompt_def getStore_def loadPrompts_def getAllPrompts_def)

lemma promptToSave_id_nonempty: "prompt_id (promptToSave rnd now cur t c) \<noteq> []"
  using randomUUID_nonempty [of rnd]
  by (cases "cur_id cur") (auto simp: promptToSave_def)

text \<open>
  C5 as stated fails: the user creates a template with title "A" and content "B" twice,
  starting from an empty store. After the second save the list holds two templates with
  that title and content.
\<close>

theorem save_same_pair_twice_counterexample:
  "(case ex_new_prompt 0 1 (ex_manager [], ex_world [] []) of
      Inl e \<Rightarrow> Inl e
    | Inr pw \<Rightarrow>
        (case ex_new_prompt 0xAB 2 pw of
           Inl e \<Rightarrow> Inl e
         | Inr pw' \<Rightarrow>
             Inr (filter (\<lambda>p. prompt_title p = str ''A'' \<and> content p = str ''B'')
                    (pm_prompts (fst pw')))))
   = Inr [\<lparr>prompt_id = str ''00000000-0000-4000-8000-000000000000'', prompt_title = str ''A'',
           content = str ''B'', createdAt = Some 1\<rparr>,
          \<lparr>prompt_id = str ''abababab-abab-4bab-abab-abababababab'', prompt_title = str ''A'',
           content = str ''B'', createdAt = Some 2\<rparr>]"
  by (simp add: ex_new_prompt_def pm_handleSave_def changeTitle_def changeContent_def handleEdit_def
      ex_manager_def ex_world_def openService_def promptToSave_def savePrompt_def getStore_def
      put_def loadPrompts_def getAllPrompts_def getAll_def ex_uuid0 ex_uuid1)
    (simp add: str_def)

text \<open>
  C5, amended. When the editor holds a non-empty title and content, the database is open
  and both requests succeed, \<open>handleSave\<close> stores one template and the list shown is
  the list of the store. The list holds exactly one template with the saved identifier,
  which is not empty: it is the saved template as a whole, with that title and content.
  All templates of other identifiers are as before, so saving under an identifier already
  stored replaces that template and the list keeps its length, while a new identifier
  makes it one longer. The saved template is the only one with its title and content
  when no template of another identifier has them already.
\<close>

theorem save_then_list:
  assumes "wellKeyed (dbService w)" and "db (dbService w) = Some d"
    and "cur_title (currentPrompt pm) = Some t" and "cur_content (currentPrompt pm) = Some c"
    and "t \<noteq> []" and "c \<noteq> []"
  shows "\<exists>pm' w' d' saved.
           pm_handleSave rnd now OnSuccess OnSuccess (pm, w) = Inr (pm', w')
           \<and> db (dbService w') = Some d'
           \<and> getAllPrompts OnSuccess (dbService w') = Inr (pm_prompts pm')
           \<and> wellKeyed (dbService w')
           \<and> saved = promptToSave rnd now (currentPrompt pm) t c
           \<and> prompt_id saved = orStr (cur_id (currentPrompt pm)) (randomUUID rnd)
           \<and> prompt_id saved \<noteq> [] \<and> prompt_title saved = t \<and> content saved = c
           \<and> filter (\<lambda>p. prompt_id p = prompt_id saved) (pm_prompts pm') = [saved]
           \<and> filter (\<lambda>p. prompt_id p \<noteq> prompt_id saved) (pm_prompts pm')
               = filter (\<lambda>p. prompt_id p \<noteq> prompt_id saved) (getAll prompt_id (store_prompts d))
           \<and> length (pm_prompts pm')
               = (if prompt_id saved \<in> prompt_id ` set (store_prompts d)
                  then length (store_prompts d) else Suc (length (store_prompts d)))
           \<and> ((\<forall>p\<in>set (store_prompts d).
                   prompt_id p \<noteq> prompt_id saved \<longrightarrow> prompt_title p \<noteq> t \<or> content p \<noteq> c)
                \<longrightarrow> filter (\<lambda>p. prompt_title p = t \<and> content p = c) (pm_prompts pm') = [saved])"
proof -
  define saved where "saved = promptToSave rnd now (currentPrompt pm) t c"
  define rows' where "rows' = put prompt_id saved (store_prompts d)"
  define d' where "d' = d\<lparr>store_prompts := rows'\<rparr>"
  define w' where "w' = w\<lparr>dbService := (dbService w)\<lparr>db := Some d'\<rparr>\<rparr>"
  define pm' where "pm' = pm\<lparr>isEditing := False, pm_prompts := getAll prompt_id rows'\<rparr>"
  have dist: "distinct (map prompt_id (store_prompts d))"
    using wellKeyed_stores [OF assms(1) assms(2)] by simp
  have 1: "pm_handleSave rnd now OnSuccess OnSuccess (pm, w) = Inr (pm', w')"
    unfolding pm'_def w'_def d'_def rows'_def saved_def
    by (rule pm_handleSave_success [OF assms(2-6)])
  have 2: "db (dbService w') = Some d'"
    by (simp add: w'_def)
  have l: "pm_prompts pm' = getAll prompt_id rows'"
    by (simp add: pm'_def)
  have 3: "getAllPrompts OnSuccess (dbService w') = Inr (pm_prompts pm')"
    by (simp add: getAllPrompts_def getStore_def w'_def d'_def l)
  have "distinct (map prompt_id rows')"
    unfolding rows'_def by (rule put_distinct [OF dist])
  then have 4: "wellKeyed (dbService w')"
    using wellKeyed_stores [OF assms(1) assms(2)] by (simp add: wellKeyed_def w'_def d'_def)
  have 5: "prompt_id saved = orStr (cur_id (currentPrompt pm)) (randomUUID rnd)"
    "prompt_title saved = t" "content saved = c"
    by (simp_all add: saved_def promptToSave_def)
  have 6: "prompt_id saved \<noteq> []"
    unfolding saved_def by (rule promptToSave_id_nonempty)
  have 7: "filter (\<lambda>p. prompt_id p = prompt_id saved) (pm_prompts pm') = [saved]"
    by (simp only: l getAll_filter rows'_def put_filter_key getAll_single)
  have 8: "filter (\<lambda>p. prompt_id p \<noteq> prompt_id saved) (pm_prompts pm')
               = filter (\<lambda>p. prompt_id p \<noteq> prompt_id saved) (getAll prompt_id (store_prompts d))"
    by (simp only: l getAll_filter rows'_def put_filter_others)
  have 9: "length (pm_prompts pm')
               = (if prompt_id saved \<in> prompt_id ` set (store_prompts d)
                  then length (store_prompts d) else Suc (length (store_prompts d)))"
    by (simp only: l getAll_length rows'_def put_length [OF dist])
  have 10: "filter (\<lambda>p. prompt_title p = t \<and> content p = c) (pm_prompts pm') = [saved]"
    if h: "\<forall>p\<in>set (store_prompts d).
             prompt_id p \<noteq> prompt_id saved \<longrightarrow> prompt_title p \<noteq> t \<or> content p \<noteq> c"
  proof -
    have "filter (\<lambda>p. prompt_title p = t \<and> content p = c)
            (filter (\<lambda>p. prompt_id p \<noteq> prompt_id saved) (store_prompts d)) = []"
      using h by (auto simp: filter_empty_conv)
    then have "filter (\<lambda>p. prompt_title p = t \<and> content p = c) rows' = [saved]"
      by (simp add: rows'_def put_def 5)
    then show ?thesis
      by (simp only: l getAll_filter getAll_single)
  qed
  from 1 2 3 4 5 6 7 8 9 10 show ?thesis
    unfolding saved_def [symmetric] by blast
qed

theorem save_then_list_witness:
  "wellKeyed (dbService (ex_world [ex_prompt ''p1'' ''A'' ''B''] []))
   \<and> db (dbService (ex_world [ex_prompt ''p1'' ''A'' ''B''] []))
     = Some \<lparr>store_prompts = [ex_prompt ''p1'' ''A'' ''B''], store_entries = []\<rparr>
   \<and> cur_title (currentPrompt (changeTitle (str ''C'')
        (handleEdit (Some (ex_prompt ''p1'' ''A'' ''B'')) (ex_manager [ex_prompt ''p1'' ''A'' ''B''])))) = Some (str ''C'')
   \<and> cur_content (currentPrompt (changeTitle (str ''C'')
        (handleEdit (Some (ex_prompt ''p1'' ''A'' ''B'')) (ex_manager [ex_prompt ''p1'' ''A'' ''B''])))) = Some (str ''B'')
   \<and> str ''C'' \<noteq> [] \<and> str ''B'' \<noteq> []
   \<and> (\<exists>pm' w'.
         pm_handleSave (ex_rnd 0) 5 OnSuccess OnSuccess
           (changeTitle (str ''C'')
              (handleEdit (Some (ex_prompt ''p1'' ''A'' ''B'')) (ex_manager [ex_prompt ''p1'' ''A'' ''B''])),
            ex_world [ex_prompt ''p1'' ''A'' ''B''] [])
         = Inr (pm', w')
         \<and> filter (\<lambda>p. prompt_title p = str ''C'' \<and> content p = str ''B'') (pm_prompts pm')
             = [ex_prompt ''p1'' ''C'' ''B'']
         \<and> length (pm_prompts pm') = 1)"
proof -
  let ?P = "ex_prompt ''p1'' ''A'' ''B''"
  let ?pm = "changeTitle (str ''C'') (handleEdit (Some ?P) (ex_manager [?P]))"
  let ?w = "ex_world [?P] []"
  let ?d = "\<lparr>store_prompts = [?P], store_entries = []\<rparr>"
  have h1: "wellKeyed (dbService ?w)"
    by (simp add: wellKeyed_def ex_world_def openService_def)
  have h2: "db (dbService ?w) = Some ?d"
    by (simp add: ex_world_def openService_def)
  have h3: "cur_title (currentPrompt ?pm) = Some (str ''C'')"
    by (simp add: changeTitle_def)
  have h4: "cur_content (currentPrompt ?pm) = Some (str ''B'')"
    by (simp add: changeTitle_def handleEdit_def asPartial_def ex_prompt_def)
  have h5: "str ''C'' \<noteq> []" and h6: "str ''B'' \<noteq> []"
    by (simp_all add: str_def)
  have s: "promptToSave (ex_rnd 0) 5 (currentPrompt ?pm) (str ''C'') (str ''B'') = ex_prompt ''p1'' ''C'' ''B''"
    by (simp add: promptToSave_def changeTitle_def handleEdit_def asPartial_def ex_prompt_def str_def)
  from save_then_list [OF h1 h2 h3 h4 h5 h6, of "ex_rnd 0" 5]
  obtain pm' w' saved where
    r: "pm_handleSave (ex_rnd 0) 5 OnSuccess OnSuccess (?pm, ?w) = Inr (pm', w')"
    and sv: "saved = promptToSave (ex_rnd 0) 5 (currentPrompt ?pm) (str ''C'') (str ''B'')"
    and len: "length (pm_prompts pm')
               = (if prompt_id saved \<in> prompt_id ` set (store_prompts ?d)
                  then length (store_prompts ?d) else Suc (length (store_prompts ?d)))"
    and one: "(\<forall>p\<in>set (store_prompts ?d).
                   prompt_id p \<noteq> prompt_id saved \<longrightarrow> prompt_title p \<noteq> str ''C'' \<or> content p \<noteq> str ''B'')
                \<longrightarrow> filter (\<lambda>p. prompt_title p = str ''C'' \<and> content p = str ''B'') (pm_prompts pm') = [saved]"
    by blast
  have sv': "saved = ex_prompt ''p1'' ''C'' ''B''"
    using sv s by simp
  have "\<forall>p\<in>set (store_prompts ?d).
          prompt_id p \<noteq> prompt_id saved \<longrightarrow> prompt_title p \<noteq> str ''C'' \<or> content p \<noteq> str ''B''"
    by (simp add: sv' ex_prompt_def)
  with one have a: "filter (\<lambda>p. prompt_title p = str ''C'' \<and> content p = str ''B'') (pm_prompts pm')
       = [ex_prompt ''p1'' ''C'' ''B'']"
    by (simp add: sv')
  have b: "length (pm_prompts pm') = 1"
    using len by (simp add: sv' ex_prompt_def)
  from r a b have "\<exists>pm' w'.
         pm_handleSave (ex_rnd 0) 5 OnSuccess OnSuccess (?pm, ?w) = Inr (pm', w')
         \<and> filter (\<lambda>p. prompt_title p = str ''C'' \<and> content p = str ''B'') (pm_prompts pm')
             = [ex_prompt ''p1'' ''C'' ''B'']
         \<and> length (pm_prompts pm') = 1"
    by blast
  with h1 h2 h3 h4 h5 h6 show ?thesis
    by simp
qed

section \<open>Importing templates\<close>































text \<open>
  The store of JSON values is the store of the typed handlers: on the object of a
  \<open>SavedPrompt\<close>, \<open>savePromptValue\<close> is \<open>savePrompt\<close> and \<open>loadPromptValues\<close> is
  \<open>loadPrompts\<close>.
\<close>

lemma keyOf_rowOf: "keyOf (rowOf p) = Some (JStr (prompt_id p))"
  by (simp add: keyOf_def rowOf_def)

lemma rowOf_put: "map rowOf (put prompt_id p rows) = put keyOf (rowOf p) (map rowOf rows)"
  by (simp add: put_def filter_map o_def keyOf_rowOf)

lemma rowOf_validates:
  "validates (rowOf p) \<longleftrightarrow> prompt_title p \<noteq> [] \<and> content p \<noteq> []"
  by (simp add: rowOf_def str_def)

lemma rowOf_savePrompt:
  "savePromptValue ev (rowOf p) (map_option (\<lambda>d. map rowOf (store_prompts d)) (db s))
     = (case savePrompt ev p s of
          Inl e \<Rightarrow> Inl e
        | Inr s' \<Rightarrow> Inr (map_option (\<lambda>d. map rowOf (store_prompts d)) (db s')))"
  by (simp add: savePromptValue_def savePrompt_def getStore_def keyOf_rowOf rowOf_put
      split: option.splits idb_event.splits)

lemma rowOf_insert:
  "insertValue (rowOf p) (map rowOf rows) = map rowOf (insort_key prompt_id p rows)"
  by (induction rows) (auto simp: valueLess_def keyOf_rowOf)

lemma rowOf_getAll: "getAllValues (map rowOf rows) = map rowOf (getAll prompt_id rows)"
  by (induction rows) (simp_all add: getAllValues_def getAll_def sort_key_def rowOf_insert)

lemma pageOf_loadPrompts: "pageOf (loadPrompts ev pw) = loadPromptValues ev (pageOf pw)"
  by (cases pw)
    (simp add: pageOf_def loadPrompts_def loadPromptValues_def getAllPrompts_def getStore_def
      rowOf_getAll split: option.splits idb_event.splits)
















section \<open>Failures of the provider\<close>

text \<open>
  C7 as stated fails: when the provider throws a quota error, \<open>analyzeText\<close> fails with
  that very error, which is no \<open>GenerationError\<close> around it.
\<close>

theorem analyzeText_wrapper_counterexample:
  "fst (analyzeText (Throws ex_quota) (str ''T'') (str ''Summarize X'') []) = Inl ex_quota
   \<and> \<not> spec_GenerationError ex_quota ex_quota"
  by (simp add: analyzeText_def generateContent_def spec_GenerationError_def ex_quota_def)

text \<open>
  C7, amended. When the provider call throws, \<open>analyzeText\<close> fails with the thrown error
  itself, unchanged, after exactly one request; \<open>handleRunAnalysis\<close> then shows the fixed
  failure message, leaves no result and has made that one request only.
\<close>

theorem analyzeText_rethrows_once:
  "analyzeText (Throws e) txt promptInstruction calls
     = (Inl e, calls @ [analyzeRequest txt promptInstruction])
   \<and> (trim (inputText a) \<noteq> [] \<and> selectedPromptId a \<noteq> []
        \<and> find (\<lambda>p. prompt_id p = selectedPromptId a) (prompts a) = Some promptObj
      \<longrightarrow> handleRunAnalysis (Throws e) (a, w)
          = (a\<lparr>isAnalyzing := False, result := None,
               error := Some (str ''Failed to generate analysis. Please check your connection and API key.'')\<rparr>,
             w\<lparr>sent := sent w @ [analyzeRequest (inputText a) (content promptObj)]\<rparr>))"
  by (simp add: analyzeText_def generateContent_def handleRunAnalysis_def)

theorem analyzeText_rethrows_once_witness:
  "trim (inputText (ex_analyzer [ex_prompt ''p1'' ''A'' ''Summarize X''] ''p1'' (str ''T''))) \<noteq> []
   \<and> selectedPromptId (ex_analyzer [ex_prompt ''p1'' ''A'' ''Summarize X''] ''p1'' (str ''T'')) \<noteq> []
   \<and> find (\<lambda>p. prompt_id p = selectedPromptId (ex_analyzer [ex_prompt ''p1'' ''A'' ''Summarize X''] ''p1'' (str ''T'')))
        (prompts (ex_analyzer [ex_prompt ''p1'' ''A'' ''Summarize X''] ''p1'' (str ''T'')))
       = Some (ex_prompt ''p1'' ''A'' ''Summarize X'')
   \<and> handleRunAnalysis (Throws ex_quota)
        (ex_analyzer [ex_prompt ''p1'' ''A'' ''Summarize X''] ''p1'' (str ''T''),
         ex_world [ex_prompt ''p1'' ''A'' ''Summarize X''] [])
      = ((ex_analyzer [ex_prompt ''p1'' ''A'' ''Summarize X''] ''p1'' (str ''T''))
           \<lparr>error := Some (str ''Failed to generate analysis. Please check your connection and API key.'')\<rparr>,
         (ex_world [ex_prompt ''p1'' ''A'' ''Summarize X''] [])
           \<lparr>sent := [analyzeRequest (str ''T'') (str ''Summarize X'')]\<rparr>)"
proof -
  let ?a = "ex_analyzer [ex_prompt ''p1'' ''A'' ''Summarize X''] ''p1'' (str ''T'')"
  let ?w = "ex_world [ex_prompt ''p1'' ''A'' ''Summarize X''] []"
  have h1: "trim (inputText ?a) \<noteq> []"
    by (simp add: ex_analyzer_def trim_def isWhiteSpace_def str_def)
  have h2: "selectedPromptId ?a \<noteq> []"
    by (simp add: ex_analyzer_def str_def)
  have h3: "find (\<lambda>p. prompt_id p = selectedPromptId ?a) (prompts ?a) = Some (ex_prompt ''p1'' ''A'' ''Summarize X'')"
    by (simp add: ex_analyzer_def ex_prompt_def)
  have e: "?a\<lparr>isAnalyzing := False, result := None,
               error := Some (str ''Failed to generate analysis. Please check your connection and API key.'')\<rparr>
        = ?a\<lparr>error := Some (str ''Failed to generate analysis. Please check your connection and API key.'')\<rparr>"
       "sent ?w @ [analyzeRequest (inputText ?a) (content (ex_prompt ''p1'' ''A'' ''Summarize X''))]
        = [analyzeRequest (str ''T'') (str ''Summarize X'')]"
    by (simp_all add: ex_analyzer_def ex_world_def ex_prompt_def)
  from analyzeText_rethrows_once [of ex_quota "str ''T''" "str ''S''" "[]" ?a "ex_prompt ''p1'' ''A'' ''Summarize X''" ?w]
  have "handleRunAnalysis (Throws ex_quota) (?a, ?w)
          = (?a\<lparr>isAnalyzing := False, result := None,
               error := Some (str ''Failed to generate analysis. Please check your connection and API key.'')\<rparr>,
             ?w\<lparr>sent := sent ?w @ [analyzeRequest (inputText ?a) (content (ex_prompt ''p1'' ''A'' ''Summarize X''))]\<rparr>)"
    using h1 h2 h3 by blast
  then show ?thesis
    using h1 h2 h3 unfolding e by (intro conjI)
qed

section \<open>A question over an empty knowledge base\<close>

text \<open>
  C8 as stated fails: with no entries, \<open>searchDatabase\<close> returns what the provider answers,
  which need not be the fallback, and it throws when the provider call throws.
\<close>

theorem searchDatabase_empty_counterexample:
  "fst (searchDatabase ex_date (Response (Some (str ''Paris''))) (str ''capital?'') [] [])
     = Inr (str ''Paris'')
   \<and> str ''Paris'' \<noteq> str ''I couldn't find an answer in your database.''
   \<and> fst (searchDatabase ex_date (Throws ex_quota) (str ''capital?'') [] []) = Inl ex_quota"
  by (simp add: searchDatabase_def generateContent_def str_def)

text \<open>
  C8, amended. With no entries the context document is empty and one request is still
  made. For every entry list \<open>searchDatabase\<close> returns the provider's text when it is a
  non-empty string and the literal fallback when the provider returns nothing; it throws
  exactly when the provider call throws. \<open>handleSmartSearch\<close> completes in each case: it
  appends the question and then the answer, the fallback or the apology.
\<close>

theorem searchDatabase_no_entries:
  "contextData d [] = []
   \<and> parts (searchRequest d q []) = [str ''DATABASE CONTEXT:'' @ nl, str ''USER QUESTION: '' @ q]
   \<and> searchDatabase d (Response t) q es calls
       = (Inr (orStr t (str ''I couldn't find an answer in your database.'')),
          calls @ [searchRequest d q es])
   \<and> searchDatabase d (Throws e) q es calls = (Inl e, calls @ [searchRequest d q es])
   \<and> (t = None \<or> t = Some []
        \<longrightarrow> orStr t (str ''I couldn't find an answer in your database.'')
            = str ''I couldn't find an answer in your database.'')
   \<and> (r \<noteq> [] \<longrightarrow> orStr (Some r) (str ''I couldn't find an answer in your database.'') = r)
   \<and> (trim (chatQuery kb) \<noteq> []
        \<longrightarrow> chatHistory (fst (handleSmartSearch d reply now now' (kb, w)))
            = chatHistory kb
              @ [\<lparr>msg_role = User, msg_text = chatQuery kb, msg_timestamp = now\<rparr>,
                 \<lparr>msg_role = Model,
                  msg_text = (case reply of
                                Throws e \<Rightarrow> str ''Sorry, I encountered an error searching your database.''
                              | Response t \<Rightarrow> orStr t (str ''I couldn't find an answer in your database.'')),
                  msg_timestamp = now'\<rparr>]
          \<and> sent (snd (handleSmartSearch d reply now now' (kb, w)))
            = sent w @ [searchRequest d (chatQuery kb) (entries kb)])"
proof -
  have 1: "contextData d [] = []"
    by (simp add: contextData_def)
  have 2: "parts (searchRequest d q []) = [str ''DATABASE CONTEXT:'' @ nl, str ''USER QUESTION: '' @ q]"
    by (simp add: searchRequest_def 1)
  have 3: "searchDatabase d (Response t) q es calls
       = (Inr (orStr t (str ''I couldn't find an answer in your database.'')),
          calls @ [searchRequest d q es])"
    by (simp add: searchDatabase_def generateContent_def)
  have 4: "searchDatabase d (Throws e) q es calls = (Inl e, calls @ [searchRequest d q es])"
    by (simp add: searchDatabase_def generateContent_def)
  have 5: "t = None \<or> t = Some []
        \<longrightarrow> orStr t (str ''I couldn't find an answer in your database.'')
            = str ''I couldn't find an answer in your database.''"
    by auto
  have 6: "r \<noteq> [] \<longrightarrow> orStr (Some r) (str ''I couldn't find an answer in your database.'') = r"
    by simp
  have 7: "trim (chatQuery kb) \<noteq> []
        \<longrightarrow> chatHistory (fst (handleSmartSearch d reply now now' (kb, w)))
            = chatHistory kb
              @ [\<lparr>msg_role = User, msg_text = chatQuery kb, msg_timestamp = now\<rparr>,
                 \<lparr>msg_role = Model,
                  msg_text = (case reply of
                                Throws e \<Rightarrow> str ''Sorry, I encountered an error searching your database.''
                              | Response t \<Rightarrow> orStr t (str ''I couldn't find an answer in your database.'')),
                  msg_timestamp = now'\<rparr>]
          \<and> sent (snd (handleSmartSearch d reply now now' (kb, w)))
            = sent w @ [searchRequest d (chatQuery kb) (entries kb)]"
    by (cases reply) (simp_all add: handleSmartSearch_def searchDatabase_def generateContent_def)
  from 1 2 3 4 5 6 7 show ?thesis
    by (intro conjI)
qed

theorem searchDatabase_no_entries_witness:
  "trim (chatQuery (ex_kb [] ''capital?'')) \<noteq> []
   \<and> chatHistory (fst (handleSmartSearch ex_date (Response None) 1 2 (ex_kb [] ''capital?'', ex_world [] [])))
       = [\<lparr>msg_role = User, msg_text = str ''capital?'', msg_timestamp = 1\<rparr>,
          \<lparr>msg_role = Model, msg_text = str ''I couldn't find an answer in your database.'',
           msg_timestamp = 2\<rparr>]
   \<and> sent (snd (handleSmartSearch ex_date (Response None) 1 2 (ex_kb [] ''capital?'', ex_world [] [])))
       = [searchRequest ex_date (str ''capital?'') []]
   \<and> orStr (Some (str ''Paris'')) (str ''I couldn't find an answer in your database.'') = str ''Paris''"
proof -
  let ?kb = "ex_kb [] ''capital?''"
  let ?w = "ex_world [] []"
  note t = searchDatabase_no_entries [of ex_date "str ''capital?''" None "[]" "[]" ex_quota
      "str ''Paris''" ?kb "Response None" 1 2 ?w]
  have h1: "trim (chatQuery ?kb) \<noteq> []"
    by (simp add: ex_kb_def trim_def isWhiteSpace_def str_def)
  have h2: "str ''Paris'' \<noteq> []"
    by (simp add: str_def)
  have f: "chatHistory ?kb = []" "chatQuery ?kb = str ''capital?''" "sent ?w = []" "entries ?kb = []"
    by (simp_all add: ex_kb_def ex_world_def)
  from t h1 have a: "chatHistory (fst (handleSmartSearch ex_date (Response None) 1 2 (?kb, ?w)))
            = chatHistory ?kb
              @ [\<lparr>msg_role = User, msg_text = chatQuery ?kb, msg_timestamp = 1\<rparr>,
                 \<lparr>msg_role = Model,
                  msg_text = (case Response None of
                                Throws e \<Rightarrow> str ''Sorry, I encountered an error searching your database.''
                              | Response t \<Rightarrow> orStr t (str ''I couldn't find an answer in your database.'')),
                  msg_timestamp = 2\<rparr>]
          \<and> sent (snd (handleSmartSearch ex_date (Response None) 1 2 (?kb, ?w)))
            = sent ?w @ [searchRequest ex_date (chatQuery ?kb) (entries ?kb)]"
    by blast
  from t h2 have b: "orStr (Some (str ''Paris'')) (str ''I couldn't find an answer in your database.'') = str ''Paris''"
    by blast
  from a b h1 show ?thesis
    unfolding f by simp
qed

section \<open>Editing a template\<close>

text \<open>
  What \<open>handleSave\<close> keeps of the template being edited: its identifier when that is a
  non-empty string, and its creation time when that is present and not zero.
\<close>

lemma promptToSave_keeps_id:
  "cur_id cur = Some k \<Longrightarrow> k \<noteq> [] \<Longrightarrow> prompt_id (promptToSave rnd now cur t c) = k"
  by (simp add: promptToSave_def)

lemma promptToSave_keeps_createdAt:
  "cur_createdAt cur = Some n \<Longrightarrow> n \<noteq> 0 \<Longrightarrow> createdAt (promptToSave rnd now cur t c) = Some n"
  by (simp add: promptToSave_def)

text \<open>
  C9 at a failing input. A stored template whose \<open>createdAt\<close> is 0, or which has none (as
  every template imported without one), is opened in the editor, its title is changed
  and it is saved at time 1700000000000: the identifier is kept, but the stored template
  now carries the time of the edit as its creation time.
\<close>

theorem edit_resets_falsy_createdAt:
  "pm_handleSave (ex_rnd 0) 1700000000000 OnSuccess OnSuccess
     (changeTitle (str ''C'')
        (handleEdit (Some \<lparr>prompt_id = str ''p1'', prompt_title = str ''A'', content = str ''B'',
                           createdAt = Some 0\<rparr>)
           (ex_manager [\<lparr>prompt_id = str ''p1'', prompt_title = str ''A'', content = str ''B'',
                         createdAt = Some 0\<rparr>])),
      ex_world [\<lparr>prompt_id = str ''p1'', prompt_title = str ''A'', content = str ''B'',
                 createdAt = Some 0\<rparr>] [])
   = Inr (\<lparr>pm_prompts = [\<lparr>prompt_id = str ''p1'', prompt_title = str ''C'', content = str ''B'',
                           createdAt = Some 1700000000000\<rparr>],
           isEditing = False,
           currentPrompt = \<lparr>cur_id = Some (str ''p1''), cur_title = Some (str ''C''),
                            cur_content = Some (str ''B''), cur_createdAt = Some 0\<rparr>\<rparr>,
          ex_world [\<lparr>prompt_id = str ''p1'', prompt_title = str ''C'', content = str ''B'',
                     createdAt = Some 1700000000000\<rparr>] [])
   \<and> pm_handleSave (ex_rnd 0) 1700000000000 OnSuccess OnSuccess
     (changeTitle (str ''C'')
        (handleEdit (Some \<lparr>prompt_id = str ''p1'', prompt_title = str ''A'', content = str ''B'',
                           createdAt = None\<rparr>)
           (ex_manager [\<lparr>prompt_id = str ''p1'', prompt_title = str ''A'', content = str ''B'',
                         createdAt = None\<rparr>])),
      ex_world [\<lparr>prompt_id = str ''p1'', prompt_title = str ''A'', content = str ''B'',
                 createdAt = None\<rparr>] [])
   = Inr (\<lparr>pm_prompts = [\<lparr>prompt_id = str ''p1'', prompt_title = str ''C'', content = str ''B'',
                           createdAt = Some 1700000000000\<rparr>],
           isEditing = False,
           currentPrompt = \<lparr>cur_id = Some (str ''p1''), cur_title = Some (str ''C''),
                            cur_content = Some (str ''B''), cur_createdAt = None\<rparr>\<rparr>,
          ex_world [\<lparr>prompt_id = str ''p1'', prompt_title = str ''C'', content = str ''B'',
                     createdAt = Some 1700000000000\<rparr>] [])"
  by (simp add: pm_handleSave_def changeTitle_def handleEdit_def ex_manager_def ex_world_def
      openService_def asPartial_def promptToSave_def savePrompt_def getStore_def put_def
      loadPrompts_def getAllPrompts_def getAll_def str_def)

section \<open>Results of the gateway\<close>

text \<open>
  C10. A string returned by \<open>analyzeText\<close> or by \<open>searchDatabase\<close> is never empty: it is
  the text of the provider's response or the literal fallback of the method.
\<close>

theorem gateway_result_nonempty:
  "(fst (analyzeText reply txt promptInstruction calls) = Inr out
      \<longrightarrow> out \<noteq> [] \<and> (reply = Response (Some out) \<or> out = str ''No response generated.''))
   \<and> (fst (searchDatabase toLocaleDateString reply query es calls) = Inr out'
      \<longrightarrow> out' \<noteq> [] \<and> (reply = Response (Some out')
                        \<or> out' = str ''I couldn't find an answer in your database.''))"
proof -
  have a: "str ''No response generated.'' \<noteq> []" and b: "str ''I couldn't find an answer in your database.'' \<noteq> []"
    by (simp_all add: str_def)
  show ?thesis
    using orStr_nonempty [OF a] orStr_nonempty [OF b] orStr_cases
    by (cases reply) (auto simp: analyzeText_def searchDatabase_def generateContent_def)
qed

theorem gateway_result_nonempty_witness:
  "fst (analyzeText (Response (Some [])) (str ''T'') (str ''Summarize X'') []) = Inr (str ''No response generated.'')
   \<and> str ''No response generated.'' \<noteq> []
   \<and> fst (searchDatabase (\<lambda>t. str ''1/1/2024'') (Response (Some (str ''See entry e1''))) (str ''who?'') [] [])
       = Inr (str ''See entry e1'')
   \<and> str ''See entry e1'' \<noteq> []"
proof -
  have 1: "fst (analyzeText (Response (Some [])) (str ''T'') (str ''Summarize X'') []) = Inr (str ''No response generated.'')"
    by (simp add: analyzeText_def generateContent_def)
  have 2: "fst (searchDatabase (\<lambda>t. str ''1/1/2024'') (Response (Some (str ''See entry e1''))) (str ''who?'') [] [])
       = Inr (str ''See entry e1'')"
    by (simp add: searchDatabase_def generateContent_def str_def)
  from gateway_result_nonempty [of "Response (Some [])" "str ''T''" "str ''Summarize X''" "[]" "str ''No response generated.''"
       "\<lambda>t. str ''1/1/2024''" "str ''who?''" "[]" "str ''I couldn't find an answer in your database.''"] 1 2
       gateway_result_nonempty [of "Response (Some (str ''See entry e1''))" "str ''T''" "str ''Summarize X''" "[]" "str ''x''"
       "\<lambda>t. str ''1/1/2024''" "str ''who?''" "[]" "str ''See entry e1''"] 
  show ?thesis
    by simp
qed

end
